theory Spec2Isabelle
  imports Complex_Main "HOL-Library.Sublist"
begin

section \<open>JavaScript values used by the exam model\<close>

text \<open>
  The TypeScript type \<open>number\<close> is an IEEE 754 binary64 value: a finite number, NaN or
  an infinity. A finite number is the rational it denotes (zero is not signed here).
  Comparisons are exact. Division, multiplication and subtraction round their exact result
  to the nearest binary64 value, ties to the even significand, as the hardware does.
\<close>

datatype jsnum = Fin rat | NaN | PosInf | NegInf

text \<open>
  Rounding. \<open>binade_up x\<close> is the exponent \<open>e\<close> with \<open>2^e \<le> x < 2^(e+1)\<close> for
  \<open>1 \<le> x\<close>, and \<open>binade\<close> extends it to every positive \<open>x\<close>. The quantum of \<open>x\<close> is
  the distance between neighbouring binary64 values around it: 52 binary places below its
  exponent, and \<open>2^(-1074)\<close> in the subnormal range. \<open>nearest x\<close> is the multiple of the
  quantum nearest to \<open>x\<close>; at \<open>2^1024\<close> the result overflows to an infinity.
\<close>

function binade_up :: "rat \<Rightarrow> int" where
  "binade_up x = (if x < 2 then 0 else binade_up (x / 2) + 1)"
  by pat_completeness auto

termination binade_up
proof (relation "measure (\<lambda>x. nat \<lfloor>x\<rfloor>)")
  show "wf (measure (\<lambda>x::rat. nat \<lfloor>x\<rfloor>))" by simp
next
  fix x :: rat
  assume "\<not> x < 2"
  then have "\<lfloor>x / 2\<rfloor> < \<lfloor>x\<rfloor>" and "0 < \<lfloor>x\<rfloor>" by linarith+
  then show "(x / 2, x) \<in> measure (\<lambda>x. nat \<lfloor>x\<rfloor>)" by simp
qed

declare binade_up.simps [simp del]

definition binade :: "rat \<Rightarrow> int" where
  "binade x =
     (if 1 \<le> x then binade_up x
      else if 2 powi (- binade_up (1 / x)) \<le> x then - binade_up (1 / x)
      else - binade_up (1 / x) - 1)"

definition round_half_even :: "rat \<Rightarrow> int" where
  "round_half_even r =
     (if r - of_int \<lfloor>r\<rfloor> < 1 / 2 then \<lfloor>r\<rfloor>
      else if 1 / 2 < r - of_int \<lfloor>r\<rfloor> then \<lfloor>r\<rfloor> + 1
      else if even \<lfloor>r\<rfloor> then \<lfloor>r\<rfloor> else \<lfloor>r\<rfloor> + 1)"

definition quantum :: "rat \<Rightarrow> rat" where
  "quantum x = 2 powi (max (binade \<bar>x\<bar>) (- 1022) - 52)"

definition nearest :: "rat \<Rightarrow> rat" where
  "nearest x = (if x = 0 then 0 else of_int (round_half_even (x / quantum x)) * quantum x)"

definition round64 :: "rat \<Rightarrow> jsnum" where
  "round64 x =
     (if 2 ^ 1024 \<le> \<bar>nearest x\<bar> then (if 0 < x then PosInf else NegInf)
      else Fin (nearest x))"

text \<open>The relational operators \<open>>=\<close> and \<open><\<close>: every comparison with NaN is false.\<close>

fun js_ge :: "jsnum \<Rightarrow> jsnum \<Rightarrow> bool" where
  "js_ge NaN _ = False"
| "js_ge _ NaN = False"
| "js_ge (Fin a) (Fin b) = (b \<le> a)"
| "js_ge PosInf _ = True"
| "js_ge _ NegInf = True"
| "js_ge _ _ = False"

fun js_lt :: "jsnum \<Rightarrow> jsnum \<Rightarrow> bool" where
  "js_lt NaN _ = False"
| "js_lt _ NaN = False"
| "js_lt (Fin a) (Fin b) = (a < b)"
| "js_lt PosInf _ = False"
| "js_lt _ NegInf = False"
| "js_lt _ _ = True"

text \<open>Strict equality \<open>===\<close> on numbers: NaN equals nothing, itself included.\<close>

definition js_strict_eq :: "jsnum \<Rightarrow> jsnum \<Rightarrow> bool" where
  "js_strict_eq a b = (a \<noteq> NaN \<and> a = b)"

fun js_div :: "jsnum \<Rightarrow> jsnum \<Rightarrow> jsnum" where
  "js_div (Fin a) (Fin b) =
     (if b \<noteq> 0 then round64 (a / b)
      else if a = 0 then NaN
      else if 0 < a then PosInf else NegInf)"
| "js_div (Fin a) PosInf = Fin 0"
| "js_div (Fin a) NegInf = Fin 0"
| "js_div PosInf (Fin b) = (if 0 \<le> b then PosInf else NegInf)"
| "js_div NegInf (Fin b) = (if 0 \<le> b then NegInf else PosInf)"
| "js_div _ _ = NaN"

fun js_mul :: "jsnum \<Rightarrow> jsnum \<Rightarrow> jsnum" where
  "js_mul NaN _ = NaN"
| "js_mul _ NaN = NaN"
| "js_mul (Fin a) (Fin b) = round64 (a * b)"
| "js_mul (Fin a) PosInf = (if a = 0 then NaN else if 0 < a then PosInf else NegInf)"
| "js_mul (Fin a) NegInf = (if a = 0 then NaN else if 0 < a then NegInf else PosInf)"
| "js_mul PosInf (Fin b) = (if b = 0 then NaN else if 0 < b then PosInf else NegInf)"
| "js_mul NegInf (Fin b) = (if b = 0 then NaN else if 0 < b then NegInf else PosInf)"
| "js_mul PosInf PosInf = PosInf"
| "js_mul NegInf NegInf = PosInf"
| "js_mul _ _ = NegInf"

fun js_sub :: "jsnum \<Rightarrow> jsnum \<Rightarrow> jsnum" where
  "js_sub NaN _ = NaN"
| "js_sub _ NaN = NaN"
| "js_sub (Fin a) (Fin b) = round64 (a - b)"
| "js_sub (Fin a) PosInf = NegInf"
| "js_sub (Fin a) NegInf = PosInf"
| "js_sub PosInf PosInf = NaN"
| "js_sub NegInf NegInf = NaN"
| "js_sub PosInf _ = PosInf"
| "js_sub NegInf _ = NegInf"

fun js_floor :: "jsnum \<Rightarrow> jsnum" where
  "js_floor (Fin a) = Fin (of_int \<lfloor>a\<rfloor>)"
| "js_floor x = x"

text \<open>
  The length of an array, and a count of its elements, as a number: an array has fewer
  than \<open>2^32\<close> elements, so the number is exact.
\<close>

definition js_num :: "nat \<Rightarrow> jsnum" where
  "js_num n = Fin (of_nat n)"

text \<open>
  Reading \<open>xs[n]\<close>: the element when \<open>n\<close> is an integer index inside the array, and
  \<open>undefined\<close> (here \<open>None\<close>) for every other number; the read never throws.
\<close>

definition js_index :: "'a list \<Rightarrow> jsnum \<Rightarrow> 'a option" where
  "js_index xs n =
     (case n of
        Fin r \<Rightarrow>
          if r = of_int \<lfloor>r\<rfloor> \<and> 0 \<le> r \<and> r < of_nat (length xs)
          then Some (xs ! nat \<lfloor>r\<rfloor>) else None
      | _ \<Rightarrow> None)"

text \<open>
  A thrown exception: \<open>Error\<close> carries its message; the other two are the built-in
  errors the code can provoke (a property read on \<open>undefined\<close>, a date out of range).
\<close>

datatype js_error = Error string | TypeError | RangeError

type_synonym 'a result = "js_error + 'a"

text \<open>
  A \<open>Date\<close> is its time value, in milliseconds since the epoch, or the invalid date that
  the constructor gives for a string it cannot read.
\<close>

datatype js_date = Date int | InvalidDate

fun getTime :: "js_date \<Rightarrow> jsnum" where
  "getTime (Date t) = Fin (of_int t)"
| "getTime InvalidDate = NaN"

section \<open>Question (src/client/src/models/Question.ts, lines 1 to 106)\<close>

datatype difficulty = Easy | Medium | Hard

text \<open>
  The fields of the class; \<open>q_id\<close> and \<open>q_text\<close> are the fields \<open>_id\<close> and \<open>_text\<close>.
  The identifier is an integer in every Question the code builds.
\<close>

record question =
  q_id :: int
  q_text :: string
  options :: "string list"
  correctIndex :: jsnum
  userAnswer :: "jsnum option"
  difficulty :: "difficulty option"

text \<open>The constructor stores its arguments and checks nothing; no answer is recorded.\<close>

definition new_Question ::
  "int \<Rightarrow> string \<Rightarrow> string list \<Rightarrow> jsnum \<Rightarrow> difficulty option \<Rightarrow> question" where
  "new_Question i t os ci d =
     \<lparr>q_id = i, q_text = t, options = os, correctIndex = ci, userAnswer = None,
      difficulty = d\<rparr>"

text \<open>
  A method that mutates its object returns what it threw or returned together with the
  object as the call leaves it.
\<close>

definition setUserAnswer :: "jsnum \<Rightarrow> question \<Rightarrow> unit result \<times> question" where
  "setUserAnswer answerIndex q =
     (if js_ge answerIndex (Fin 0) \<and> js_lt answerIndex (js_num (length (options q)))
      then (Inr (), q\<lparr>userAnswer := Some answerIndex\<rparr>)
      else (Inl (Error ''Invalid answer index''), q))"

definition isAnswered :: "question \<Rightarrow> bool" where
  "isAnswered q = (userAnswer q \<noteq> None)"

definition isCorrect :: "question \<Rightarrow> bool" where
  "isCorrect q =
     (case userAnswer q of None \<Rightarrow> False | Some a \<Rightarrow> js_strict_eq a (correctIndex q))"

definition getCorrectAnswer :: "question \<Rightarrow> string option" where
  "getCorrectAnswer q = js_index (options q) (correctIndex q)"

text \<open>The plain record that \<open>toJSON\<close> builds and \<open>fromJSON\<close> reads.\<close>

record question_json =
  j_id :: int
  j_text :: string
  j_options :: "string list"
  j_correctIndex :: jsnum
  j_difficulty :: "difficulty option"
  j_userAnswer :: "jsnum option"

definition Question_toJSON :: "question \<Rightarrow> question_json" where
  "Question_toJSON q =
     \<lparr>j_id = q_id q, j_text = q_text q, j_options = options q,
      j_correctIndex = correctIndex q, j_difficulty = difficulty q,
      j_userAnswer = userAnswer q\<rparr>"

definition Question_fromJSON :: "question_json \<Rightarrow> question result" where
  "Question_fromJSON data =
     (let question =
        new_Question (j_id data) (j_text data) (j_options data) (j_correctIndex data)
          (j_difficulty data)
      in case j_userAnswer data of
           None \<Rightarrow> Inr question
         | Some a \<Rightarrow>
             (case setUserAnswer a question of
                (Inl e, _) \<Rightarrow> Inl e
              | (Inr _, question') \<Rightarrow> Inr question'))"

text \<open>
  The invariant of the data model: a recorded answer is a number inside
  \<open>[0, options.length)\<close>.
\<close>

definition answer_in_range :: "question \<Rightarrow> jsnum \<Rightarrow> bool" where
  "answer_in_range q a =
     (case a of Fin r \<Rightarrow> 0 \<le> r \<and> r < of_nat (length (options q)) | _ \<Rightarrow> False)"

definition question_inv :: "question \<Rightarrow> bool" where
  "question_inv q =
     (case userAnswer q of None \<Rightarrow> True | Some a \<Rightarrow> answer_in_range q a)"

section \<open>Exam (src/unnamed/part_000)\<close>

text \<open>
  The getter \<open>questions\<close> returns a copy of the array; nothing in the code changes the
  array itself, so the field stands for both.
\<close>

record exam =
  title :: string
  questions :: "question list"
  timeLimit :: "jsnum option"
  startTime :: "js_date option"
  endTime :: "js_date option"

definition new_Exam :: "string \<Rightarrow> question list \<Rightarrow> jsnum option \<Rightarrow> exam" where
  "new_Exam t qs minutes =
     \<lparr>title = t, questions = qs, timeLimit = minutes, startTime = None, endTime = None\<rparr>"

definition totalQuestions :: "exam \<Rightarrow> nat" where
  "totalQuestions e = length (questions e)"

text \<open>\<open>start\<close> and \<open>end\<close> stamp the clock reading \<open>now\<close>, in milliseconds.\<close>

definition exam_start :: "int \<Rightarrow> exam \<Rightarrow> exam" where
  "exam_start now e = e\<lparr>startTime := Some (Date now)\<rparr>"

definition exam_end :: "int \<Rightarrow> exam \<Rightarrow> exam" where
  "exam_end now e = e\<lparr>endTime := Some (Date now)\<rparr>"

definition getAnsweredCount :: "exam \<Rightarrow> nat" where
  "getAnsweredCount e = length (filter isAnswered (questions e))"

definition getProgressPercentage :: "exam \<Rightarrow> jsnum" where
  "getProgressPercentage e =
     js_mul (js_div (js_num (getAnsweredCount e)) (js_num (totalQuestions e)))
       (Fin 100)"

definition getElapsedTime :: "int \<Rightarrow> exam \<Rightarrow> jsnum" where
  "getElapsedTime now e =
     (case startTime e of
        None \<Rightarrow> Fin 0
      | Some st \<Rightarrow>
          (let endTime' = (case endTime e of Some t \<Rightarrow> t | None \<Rightarrow> Date now)
           in js_floor (js_div (js_sub (getTime endTime') (getTime st)) (Fin 1000))))"

definition canSubmit :: "exam \<Rightarrow> bool" where
  "canSubmit e = (getAnsweredCount e = totalQuestions e)"

record exam_json =
  j_title :: string
  j_questions :: "question_json list"
  j_timeLimit :: "jsnum option"
  j_startTime :: "string option"
  j_endTime :: "string option"

text \<open>
  \<open>Date.prototype.toISOString\<close> is the platform's: it is the parameter \<open>toISOString\<close>,
  from a valid time value to its text. On an invalid date it throws a RangeError.
\<close>

definition date_toISOString :: "(int \<Rightarrow> string) \<Rightarrow> js_date option \<Rightarrow> string option result" where
  "date_toISOString toISOString d =
     (case d of
        None \<Rightarrow> Inr None
      | Some InvalidDate \<Rightarrow> Inl RangeError
      | Some (Date t) \<Rightarrow> Inr (Some (toISOString t)))"

definition Exam_toJSON :: "(int \<Rightarrow> string) \<Rightarrow> exam \<Rightarrow> exam_json result" where
  "Exam_toJSON toISOString e =
     (case date_toISOString toISOString (startTime e) of
        Inl err \<Rightarrow> Inl err
      | Inr st \<Rightarrow>
          (case date_toISOString toISOString (endTime e) of
             Inl err \<Rightarrow> Inl err
           | Inr en \<Rightarrow>
               Inr \<lparr>j_title = title e, j_questions = map Question_toJSON (questions e),
                    j_timeLimit = timeLimit e, j_startTime = st, j_endTime = en\<rparr>))"

text \<open>\<open>data.questions.map(Question.fromJSON)\<close>: the first element that throws ends the map.\<close>

fun map_fromJSON :: "question_json list \<Rightarrow> question list result" where
  "map_fromJSON [] = Inr []"
| "map_fromJSON (d # ds) =
     (case Question_fromJSON d of
        Inl e \<Rightarrow> Inl e
      | Inr q \<Rightarrow> (case map_fromJSON ds of Inl e \<Rightarrow> Inl e | Inr qs \<Rightarrow> Inr (q # qs)))"

text \<open>
  \<open>new Date(text)\<close> is the platform's: the parameter \<open>parseDate\<close>. A stored timestamp is
  restored when the text is truthy, that is, not empty.
\<close>

definition restore_date :: "(string \<Rightarrow> js_date) \<Rightarrow> string option \<Rightarrow> js_date option" where
  "restore_date parseDate s =
     (case s of None \<Rightarrow> None | Some t \<Rightarrow> if t \<noteq> [] then Some (parseDate t) else None)"

definition Exam_fromJSON :: "(string \<Rightarrow> js_date) \<Rightarrow> exam_json \<Rightarrow> exam result" where
  "Exam_fromJSON parseDate data =
     (case map_fromJSON (j_questions data) of
        Inl e \<Rightarrow> Inl e
      | Inr qs \<Rightarrow>
          Inr ((new_Exam (j_title data) qs (j_timeLimit data))
                 \<lparr>startTime := restore_date parseDate (j_startTime data),
                  endTime := restore_date parseDate (j_endTime data)\<rparr>))"

section \<open>ExamResult (src/unnamed/part_001)\<close>

record exam_result =
  r_exam :: exam
  score :: nat
  percentage :: jsnum
  grade :: string
  correctCount :: nat
  incorrectCount :: nat
  completionTime :: jsnum

definition calculateCorrectCount :: "exam \<Rightarrow> nat" where
  "calculateCorrectCount e = length (filter isCorrect (questions e))"

definition calculateGrade :: "jsnum \<Rightarrow> string" where
  "calculateGrade p =
     (if js_ge p (Fin 90) then ''A''
      else if js_ge p (Fin 80) then ''B''
      else if js_ge p (Fin 70) then ''C''
      else if js_ge p (Fin 60) then ''D''
      else ''F'')"

text \<open>
  The constructor computes every field from the exam it is given. A constructor can throw,
  so the model returns a result; this one has no check and no \<open>throw\<close>, so it always
  returns. \<open>now\<close> is the clock reading \<open>getElapsedTime\<close> falls back to.
\<close>

definition new_ExamResult :: "int \<Rightarrow> exam \<Rightarrow> exam_result result" where
  "new_ExamResult now e =
     (let correct = calculateCorrectCount e;
          pct = js_mul (js_div (js_num correct) (js_num (totalQuestions e))) (Fin 100)
      in Inr \<lparr>r_exam = e, score = correct, percentage = pct, grade = calculateGrade pct,
              correctCount = correct, incorrectCount = totalQuestions e - correct,
              completionTime = getElapsedTime now e\<rparr>)"

definition isPassing :: "jsnum \<Rightarrow> exam_result \<Rightarrow> bool" where
  "isPassing passingScore r = js_ge (percentage r) passingScore"

section \<open>ExamService (src/client/src/services/AIService.ts, lines 374 to 535)\<close>

record exam_service =
  currentExam :: "exam option"

text \<open>
  \<open>createExamFromFile\<close> awaits the AI service; \<open>analyzed\<close> is what that call threw or
  returned. An empty question list is refused here, before any Exam is built.
\<close>

definition createExamFromFile ::
  "question list result \<Rightarrow> string \<Rightarrow> int \<Rightarrow> exam_service \<Rightarrow> exam result \<times> exam_service" where
  "createExamFromFile analyzed ttl now s =
     (case analyzed of
        Inl err \<Rightarrow> (Inl err, s)
      | Inr qs \<Rightarrow>
          if length qs = 0 then (Inl (Error ''No questions found in the document''), s)
          else (let e = exam_start now (new_Exam ttl qs None)
                in (Inr e, s\<lparr>currentExam := Some e\<rparr>)))"

definition completeExam :: "int \<Rightarrow> exam_service \<Rightarrow> exam_result result \<times> exam_service" where
  "completeExam now s =
     (case currentExam s of
        None \<Rightarrow> (Inl (Error ''No exam to complete''), s)
      | Some e \<Rightarrow>
          if \<not> canSubmit e then (Inl (Error ''Not all questions have been answered''), s)
          else (let e' = exam_end now e; s' = s\<lparr>currentExam := Some e'\<rparr>
                in case new_ExamResult now e' of
                     Inl err \<Rightarrow> (Inl err, s')
                   | Inr r \<Rightarrow> (Inr r, s')))"

section \<open>Strings and the regular expressions of the response parser\<close>

text \<open>
  A string is a list of code units below 256: the texts of the Latin-1 range, a character
  being its code unit. White space is what \<open>trim\<close> and the class \<open>\s\<close> take in that
  range below code 128: tab, line feed, vertical tab, form feed, carriage return and
  space.
\<close>

definition js_isspace :: "char \<Rightarrow> bool" where
  "js_isspace c = (c \<in> set [CHR 0x09, CHR 0x0A, CHR 0x0B, CHR 0x0C, CHR 0x0D, CHR 0x20])"

definition js_trim :: "string \<Rightarrow> string" where
  "js_trim s = rev (dropWhile js_isspace (rev (dropWhile js_isspace s)))"

definition startsWith :: "string \<Rightarrow> string \<Rightarrow> bool" where
  "startsWith s p = (take (length p) s = p)"

text \<open>
  \<open>toUpperCase\<close> follows the Unicode case mapping, which can leave the range and change
  the length, so its result is a list of code units as numbers. In the Latin-1 range the
  letters a to z and the letters from 224 to 254, the division sign 247 apart, move down
  by 32; the micro sign 181 becomes the Greek capital mu 924, the sharp s 223 the two
  letters SS, and the y with diaeresis 255 the capital 376; every other code unit stays.
\<close>

definition toUpperCase_unit :: "nat \<Rightarrow> nat list" where
  "toUpperCase_unit u =
     (if 97 \<le> u \<and> u \<le> 122 then [u - 32]
      else if u = 181 then [924]
      else if u = 223 then [83, 83]
      else if 224 \<le> u \<and> u \<le> 254 \<and> u \<noteq> 247 then [u - 32]
      else if u = 255 then [376]
      else [u])"

definition toUpperCase :: "string \<Rightarrow> nat list" where
  "toUpperCase s = concat (map (\<lambda>c. toUpperCase_unit (of_char c)) s)"

text \<open>\<open>charAt(0)\<close> is the empty string past the end; \<open>charCodeAt(0)\<close> is NaN there.\<close>

definition charAt0 :: "nat list \<Rightarrow> nat list" where
  "charAt0 s = take 1 s"

definition charCodeAt0 :: "nat list \<Rightarrow> jsnum" where
  "charCodeAt0 s = (case s of [] \<Rightarrow> NaN | u # _ \<Rightarrow> Fin (of_nat u))"

text \<open>The three backquotes of a markdown code fence.\<close>

definition fence :: string where
  "fence = [CHR 0x60, CHR 0x60, CHR 0x60]"

definition drop_newline :: "string \<Rightarrow> string" where
  "drop_newline s = (case s of [] \<Rightarrow> [] | c # cs \<Rightarrow> if c = CHR 0x0A then cs else s)"

text \<open>
  \<open>s.replace(/pat\n?/g, '')\<close> for a literal, non-empty \<open>pat\<close>: every occurrence of
  \<open>pat\<close>, with the line feed after it when there is one, is removed, scanning from the
  left and going on after each match.
\<close>

function replace_fence :: "string \<Rightarrow> string \<Rightarrow> string" where
  "replace_fence pat [] = []"
| "replace_fence pat (c # cs) =
     (if startsWith (c # cs) pat
      then replace_fence pat (drop_newline (drop (length pat - 1) cs))
      else c # replace_fence pat cs)"
  by pat_completeness auto

lemma length_drop_newline: "length (drop_newline s) \<le> length s"
  by (cases s) (simp_all add: drop_newline_def)

termination replace_fence
proof (relation "measure (\<lambda>(pat, s). length s)")
  show "wf (measure (\<lambda>(pat, s). length s))" by simp
next
  fix pat :: string and c :: char and cs :: string
  have "length (drop_newline (drop (length pat - 1) cs)) \<le> length (drop (length pat - 1) cs)"
    by (rule length_drop_newline)
  then show "((pat, drop_newline (drop (length pat - 1) cs)), (pat, c # cs))
               \<in> measure (\<lambda>(pat, s). length s)"
    by simp
next
  fix pat :: string and c :: char and cs :: string
  show "((pat, cs), (pat, c # cs)) \<in> measure (\<lambda>(pat, s). length s)" by simp
qed

text \<open>
  The salvage expression \<open>/\[\s*\{[\s\S]*\}\s*\]/\<close>. \<open>match_close\<close> matches
  \<open>\}\s*\]\<close> at the head of the text; \<open>match_body\<close> is the greedy \<open>[\s\S]*\<close> followed by
  it, which backtracks to the last place where the closing part matches; \<open>match_open\<close>
  is the whole expression at the head of the text, and \<open>arrayMatch\<close> the leftmost match.
\<close>

definition match_close :: "string \<Rightarrow> string option" where
  "match_close s =
     (case s of
        [] \<Rightarrow> None
      | c # cs \<Rightarrow>
          if c = CHR ''}'' then
            (case dropWhile js_isspace cs of
               [] \<Rightarrow> None
             | d # _ \<Rightarrow>
                 if d = CHR '']'' then Some (c # takeWhile js_isspace cs @ [d]) else None)
          else None)"

fun match_body :: "string \<Rightarrow> string option" where
  "match_body [] = None"
| "match_body (c # cs) =
     (case match_body cs of
        Some m \<Rightarrow> Some (c # m)
      | None \<Rightarrow> match_close (c # cs))"

definition match_open :: "string \<Rightarrow> string option" where
  "match_open s =
     (case s of
        [] \<Rightarrow> None
      | c # cs \<Rightarrow>
          if c = CHR ''['' then
            (case dropWhile js_isspace cs of
               [] \<Rightarrow> None
             | d # ds \<Rightarrow>
                 if d = CHR ''{''
                 then map_option (\<lambda>m. c # takeWhile js_isspace cs @ d # m) (match_body ds)
                 else None)
          else None)"

fun arrayMatch :: "string \<Rightarrow> string option" where
  "arrayMatch [] = None"
| "arrayMatch (c # cs) =
     (case match_open (c # cs) of
        Some m \<Rightarrow> Some m
      | None \<Rightarrow> arrayMatch cs)"

section \<open>The response parser (src/client/src/services/AIService.ts, lines 319 to 372)\<close>

text \<open>What \<open>JSON.parse\<close> returns: any JSON value.\<close>

datatype json =
    JNull
  | JBool bool
  | JNum rat
  | JStr string
  | JArr "json list"
  | JObj "(string \<times> json) list"

text \<open>
  Reading a property of a value that is not \<open>null\<close>: an object gives the property's value
  (the last one written, when the text repeats a key) or \<open>undefined\<close>, here \<open>None\<close>; a
  number, a string, a boolean or an array has none of the three properties the parser
  reads.
\<close>

definition get_prop :: "json \<Rightarrow> string \<Rightarrow> json option" where
  "get_prop v name = (case v of JObj kvs \<Rightarrow> map_of (rev kvs) name | _ \<Rightarrow> None)"

text \<open>
  A Question field holds what its TypeScript type says. The parser copies \<open>item.question\<close>
  and \<open>item.options\<close> from the untyped data unchecked: \<open>text_of\<close> and \<open>options_of\<close> give
  the field when the data fits the type, and \<open>None\<close> when it does not.
  \<open>item.question || ''\<close> is the empty string for every falsy value.
\<close>

definition text_of :: "json option \<Rightarrow> string option" where
  "text_of v =
     (case v of
        None \<Rightarrow> Some []
      | Some JNull \<Rightarrow> Some []
      | Some (JBool b) \<Rightarrow> if b then None else Some []
      | Some (JNum n) \<Rightarrow> if n = 0 then Some [] else None
      | Some (JStr s) \<Rightarrow> Some s
      | Some _ \<Rightarrow> None)"

fun string_of :: "json \<Rightarrow> string option" where
  "string_of (JStr s) = Some s"
| "string_of _ = None"

definition options_of :: "json option \<Rightarrow> string list option" where
  "options_of v =
     (case v of
        Some (JArr xs) \<Rightarrow>
          if list_all (\<lambda>x. string_of x \<noteq> None) xs then Some (map (\<lambda>x. the (string_of x)) xs)
          else None
      | _ \<Rightarrow> None)"

text \<open>
  How a call ends: it returns, it throws, or it goes on with a value outside the declared
  type of a Question field (\<open>IllTyped\<close>), which this model does not follow further.
\<close>

datatype 'a completion = Returns 'a | Throws js_error | IllTyped

text \<open>
  The callback of \<open>data.map\<close>. Reading \<open>item.correctAnswer\<close> throws a TypeError when the
  item is \<open>null\<close>; calling \<open>toUpperCase\<close> throws one unless the property is a string.
\<close>

definition toQuestion :: "nat \<Rightarrow> json \<Rightarrow> question completion" where
  "toQuestion index item =
     (case item of
        JNull \<Rightarrow> Throws TypeError
      | _ \<Rightarrow>
          (case get_prop item ''correctAnswer'' of
             Some (JStr s) \<Rightarrow>
               (let correctAnswerLetter = charAt0 (toUpperCase s);
                    correctIndex' = js_sub (charCodeAt0 correctAnswerLetter) (Fin 65)
                in case (text_of (get_prop item ''question''), options_of (get_prop item ''options'')) of
                     (Some questionText, Some opts) \<Rightarrow>
                       Returns (new_Question (int index + 1) questionText opts correctIndex' None)
                   | _ \<Rightarrow> IllTyped)
           | _ \<Rightarrow> Throws TypeError))"

text \<open>
  \<open>data.map\<close> runs the callback on the items in order; the first one that throws ends it,
  also after an ill-typed item, which throws nothing.
\<close>

fun convert_all :: "nat \<Rightarrow> json list \<Rightarrow> question list completion" where
  "convert_all index [] = Returns []"
| "convert_all index (item # items) =
     (case toQuestion index item of
        Throws e \<Rightarrow> Throws e
      | Returns q \<Rightarrow>
          (case convert_all (Suc index) items of
             Returns qs \<Rightarrow> Returns (q # qs)
           | Throws e \<Rightarrow> Throws e
           | IllTyped \<Rightarrow> IllTyped)
      | IllTyped \<Rightarrow>
          (case convert_all (Suc index) items of
             Throws e \<Rightarrow> Throws e
           | _ \<Rightarrow> IllTyped))"

text \<open>
  The elements the prompt asks for: the correct answer is a string, and the question and
  the options fit the types of the Question fields.
\<close>

definition answer_of :: "json \<Rightarrow> string option" where
  "answer_of item =
     (case get_prop item ''correctAnswer'' of Some (JStr s) \<Rightarrow> Some s | _ \<Rightarrow> None)"

definition well_typed_item :: "json \<Rightarrow> bool" where
  "well_typed_item item =
     (answer_of item \<noteq> None \<and> text_of (get_prop item ''question'') \<noteq> None
      \<and> options_of (get_prop item ''options'') \<noteq> None)"

text \<open>Lines 321 to 329: the text handed to \<open>JSON.parse\<close>.\<close>

definition cleanResponse :: "string \<Rightarrow> string" where
  "cleanResponse responseText =
     (let jsonText = js_trim responseText;
          jsonText' =
            (if startsWith jsonText (fence @ ''json'')
             then replace_fence fence (replace_fence (fence @ ''json'') jsonText)
             else if startsWith jsonText fence then replace_fence fence jsonText
             else jsonText)
      in js_trim jsonText')"

text \<open>Lines 353 to 371: the array check and the conversion.\<close>

definition questionsOfData :: "json \<Rightarrow> question list completion" where
  "questionsOfData data =
     (case data of
        JArr items \<Rightarrow> convert_all 0 items
      | _ \<Rightarrow> Throws (Error ''Invalid response format: expected array of questions''))"

text \<open>
  \<open>JSON.parse\<close> is the platform's: the parameter \<open>JSON_parse\<close> gives the value, or the
  message of the SyntaxError it throws. The second component of the result is what the
  call writes with \<open>console.error\<close>: a label and a text each.
\<close>

definition invalidJSON :: "string \<Rightarrow> js_error" where
  "invalidJSON parseError =
     Error (''Invalid JSON response from AI. Please try again. Error: '' @ parseError)"

definition parseQuestionsFromResponse ::
  "(string \<Rightarrow> string + json) \<Rightarrow> string \<Rightarrow> question list completion \<times> (string \<times> string) list" where
  "parseQuestionsFromResponse JSON_parse responseText =
     (let jsonText = cleanResponse responseText
      in case JSON_parse jsonText of
           Inr data \<Rightarrow> (questionsOfData data, [])
         | Inl parseError \<Rightarrow>
             (let console =
                    [(''JSON Parse Error:'', parseError),
                     (''Raw Response:'', responseText),
                     (''Cleaned JSON Text:'', jsonText)]
              in case arrayMatch jsonText of
                   Some m \<Rightarrow>
                     (case JSON_parse m of
                        Inr data \<Rightarrow> (questionsOfData data, console)
                      | Inl retryError \<Rightarrow> (Throws (invalidJSON parseError), console))
                 | None \<Rightarrow> (Throws (invalidJSON parseError), console)))"

section \<open>Reference instances of the platform functions\<close>

text \<open>
  The theorems below hold for every \<open>JSON_parse\<close>, \<open>toISOString\<close> and \<open>parseDate\<close>.
  Concrete runs need concrete functions: a reader for JSON texts and the ISO 8601 format
  of dates. The reader covers JSON without \<open>\u\<close> escapes and without exponents; the date
  functions cover the 24-character form that \<open>toISOString\<close> writes for the years 0 to
  9999.

  A reading gives the value read and the text after it, or, when it fails, the text from
  the character it cannot accept on, which is empty at the end of the input.
\<close>

type_synonym 'a reading = "string + 'a \<times> string"

definition json_ws :: "char \<Rightarrow> bool" where
  "json_ws c = (c \<in> set [CHR 0x20, CHR 0x09, CHR 0x0A, CHR 0x0D])"

definition skip_ws :: "string \<Rightarrow> string" where
  "skip_ws s = dropWhile json_ws s"

definition unescape :: "char \<Rightarrow> char option" where
  "unescape e =
     (if e = CHR 0x22 then Some (CHR 0x22)
      else if e = CHR 0x5C then Some (CHR 0x5C)
      else if e = CHR ''/'' then Some (CHR ''/'')
      else if e = CHR ''n'' then Some (CHR 0x0A)
      else if e = CHR ''t'' then Some (CHR 0x09)
      else if e = CHR ''r'' then Some (CHR 0x0D)
      else if e = CHR ''b'' then Some (CHR 0x08)
      else if e = CHR ''f'' then Some (CHR 0x0C)
      else None)"

text \<open>The characters of a string literal after its opening quote, and the rest.\<close>

fun read_string :: "string \<Rightarrow> string reading" where
  "read_string [] = Inl []"
| "read_string (c # cs) =
     (if c = CHR 0x22 then Inr ([], cs)
      else if c = CHR 0x5C then
        (case cs of
           [] \<Rightarrow> Inl []
         | e # r \<Rightarrow>
             (case unescape e of
                None \<Rightarrow> Inl (e # r)
              | Some u \<Rightarrow> map_sum (\<lambda>x. x) (\<lambda>(str, rest). (u # str, rest)) (read_string r)))
      else if (of_char c :: nat) < 32 then Inl (c # cs)
      else map_sum (\<lambda>x. x) (\<lambda>(str, rest). (c # str, rest)) (read_string cs))"

definition is_digit :: "char \<Rightarrow> bool" where
  "is_digit c = (48 \<le> (of_char c :: nat) \<and> (of_char c :: nat) \<le> 57)"

definition digits_value :: "string \<Rightarrow> nat" where
  "digits_value ds = foldl (\<lambda>a c. 10 * a + (of_char c - 48)) 0 ds"

definition read_number :: "string \<Rightarrow> json reading" where
  "read_number s =
     (let neg = startsWith s ''-'';
          s1 = (if neg then drop 1 s else s);
          ds = takeWhile is_digit s1;
          r = dropWhile is_digit s1;
          sgn = (if neg then - 1 else 1 :: rat)
      in if ds = [] then Inl s1
         else if 1 < length ds \<and> startsWith ds ''0'' then Inl (drop 1 s1)
         else if startsWith r ''.'' then
           (let fs = takeWhile is_digit (drop 1 r)
            in if fs = [] then Inl (drop 1 r)
               else Inr (JNum (sgn * (of_nat (digits_value ds)
                                      + of_nat (digits_value fs) / 10 ^ length fs)),
                         dropWhile is_digit (drop 1 r)))
         else Inr (JNum (sgn * of_nat (digits_value ds)), r))"

text \<open>
  The rest of a literal name after its first letter: the first character that differs is
  the one that cannot be accepted.
\<close>

fun scan_literal :: "string \<Rightarrow> string \<Rightarrow> string + string" where
  "scan_literal [] s = Inr s"
| "scan_literal (l # ls) [] = Inl []"
| "scan_literal (l # ls) (c # cs) = (if c = l then scan_literal ls cs else Inl (c # cs))"

text \<open>
  The recursive descent. The first argument bounds the depth of the calls; a list one
  longer than the text is enough, since every call but the first follows a character read.
\<close>

fun read_value :: "char list \<Rightarrow> string \<Rightarrow> json reading"
  and read_elements :: "char list \<Rightarrow> string \<Rightarrow> json list reading"
  and read_members :: "char list \<Rightarrow> string \<Rightarrow> (string \<times> json) list reading" where
  "read_value [] s = Inl s"
| "read_value (f # fuel) s =
     (case skip_ws s of
        [] \<Rightarrow> Inl []
      | c # cs \<Rightarrow>
          if c = CHR ''['' then
            (case skip_ws cs of
               [] \<Rightarrow> Inl []
             | d # ds \<Rightarrow>
                 if d = CHR '']'' then Inr (JArr [], ds)
                 else map_sum (\<lambda>x. x) (\<lambda>(xs, r). (JArr xs, r)) (read_elements fuel cs))
          else if c = CHR ''{'' then
            (case skip_ws cs of
               [] \<Rightarrow> Inl []
             | d # ds \<Rightarrow>
                 if d = CHR ''}'' then Inr (JObj [], ds)
                 else map_sum (\<lambda>x. x) (\<lambda>(kvs, r). (JObj kvs, r)) (read_members fuel cs))
          else if c = CHR 0x22 then
            map_sum (\<lambda>x. x) (\<lambda>(str, r). (JStr str, r)) (read_string cs)
          else if c = CHR ''t'' then map_sum (\<lambda>x. x) (Pair (JBool True)) (scan_literal ''rue'' cs)
          else if c = CHR ''f'' then map_sum (\<lambda>x. x) (Pair (JBool False)) (scan_literal ''alse'' cs)
          else if c = CHR ''n'' then map_sum (\<lambda>x. x) (Pair JNull) (scan_literal ''ull'' cs)
          else if c = CHR ''-'' \<or> is_digit c then read_number (c # cs)
          else Inl (c # cs))"
| "read_elements [] s = Inl s"
| "read_elements (f # fuel) s =
     (case read_value fuel s of
        Inl bad \<Rightarrow> Inl bad
      | Inr (v, r) \<Rightarrow>
          (case skip_ws r of
             [] \<Rightarrow> Inl []
           | d # ds \<Rightarrow>
               if d = CHR '','' then
                 map_sum (\<lambda>x. x) (\<lambda>(vs, r'). (v # vs, r')) (read_elements fuel ds)
               else if d = CHR '']'' then Inr ([v], ds)
               else Inl (d # ds)))"
| "read_members [] s = Inl s"
| "read_members (f # fuel) s =
     (case skip_ws s of
        [] \<Rightarrow> Inl []
      | q # cs \<Rightarrow>
          if q \<noteq> CHR 0x22 then Inl (q # cs)
          else
            (case read_string cs of
               Inl bad \<Rightarrow> Inl bad
             | Inr (k, r) \<Rightarrow>
                 (case skip_ws r of
                    [] \<Rightarrow> Inl []
                  | col # r1 \<Rightarrow>
                      if col \<noteq> CHR '':'' then Inl (col # r1)
                      else
                        (case read_value fuel r1 of
                           Inl bad \<Rightarrow> Inl bad
                         | Inr (v, r2) \<Rightarrow>
                             (case skip_ws r2 of
                                [] \<Rightarrow> Inl []
                              | d # ds \<Rightarrow>
                                  if d = CHR '','' then
                                    map_sum (\<lambda>x. x) (\<lambda>(kvs, r'). ((k, v) # kvs, r'))
                                      (read_members fuel ds)
                                  else if d = CHR ''}'' then Inr ([(k, v)], ds)
                                  else Inl (d # ds))))))"

text \<open>
  The message of the SyntaxError, in the wording of the V8 engine (Node.js 20 and later,
  Chrome): "Unexpected end of JSON input" when the text ends too early, and otherwise the
  character that cannot be accepted, between single quotes, with the source text between
  double quotes; a text of more than 20 characters is shown in part, up to ten characters
  on each side of the position, with three dots where it is cut. This is the wording for
  a text that ends too early outside a string and for a value that starts with a
  character no value starts with, or with a misspelt \<open>true\<close>, \<open>false\<close> or \<open>null\<close>.
  V8 has further wordings, which give the position as a number, for a failure inside a
  string or a number, at a missing comma, colon or property name, and after a complete
  value; the reader does not reproduce them and words those failures in the same way.
\<close>

definition source_context :: "string \<Rightarrow> nat \<Rightarrow> string" where
  "source_context source pos =
     (if length source < 21 then [CHR 0x22] @ source @ [CHR 0x22]
      else if pos < 10 then [CHR 0x22] @ take (pos + 10) source @ [CHR 0x22] @ ''...''
      else if pos < length source - 10 then
        ''...'' @ [CHR 0x22] @ take 20 (drop (pos - 10) source) @ [CHR 0x22] @ ''...''
      else ''...'' @ [CHR 0x22] @ drop (pos - 10) source @ [CHR 0x22])"

definition syntax_error :: "string \<Rightarrow> string \<Rightarrow> string" where
  "syntax_error source bad =
     (case bad of
        [] \<Rightarrow> ''Unexpected end of JSON input''
      | c # _ \<Rightarrow>
          if source \<in> set [''NaN'', ''Infinity'', ''undefined'', ''[object Object]'']
          then [CHR 0x22] @ source @ [CHR 0x22] @ '' is not valid JSON''
          else ''Unexpected token '' @ [CHR 0x27, c, CHR 0x27] @ '', ''
               @ source_context source (length source - length bad) @ '' is not valid JSON'')"

definition json_parse :: "string \<Rightarrow> string + json" where
  "json_parse s =
     (case read_value (CHR 0x20 # s) s of
        Inl bad \<Rightarrow> Inl (syntax_error s bad)
      | Inr (v, r) \<Rightarrow>
          (case skip_ws r of
             [] \<Rightarrow> Inr v
           | c # cs \<Rightarrow> Inl (syntax_error s (c # cs))))"

text \<open>Dates: the proleptic Gregorian calendar from a day count, and back.\<close>

definition civil_of_mp :: "int \<Rightarrow> int \<Rightarrow> int \<Rightarrow> int \<times> int \<times> int" where
  "civil_of_mp y doy mp =
     (if mp < 10 then y else y + 1, if mp < 10 then mp + 3 else mp - 9,
      doy - (153 * mp + 2) div 5 + 1)"

definition civil_of_doy :: "int \<Rightarrow> int \<Rightarrow> int \<times> int \<times> int" where
  "civil_of_doy y doy = civil_of_mp y doy ((5 * doy + 2) div 153)"

definition civil_of_yoe :: "int \<Rightarrow> int \<Rightarrow> int \<Rightarrow> int \<times> int \<times> int" where
  "civil_of_yoe era doe yoe =
     civil_of_doy (yoe + era * 400) (doe - (365 * yoe + yoe div 4 - yoe div 100))"

definition civil_of_doe :: "int \<Rightarrow> int \<Rightarrow> int \<times> int \<times> int" where
  "civil_of_doe era doe =
     civil_of_yoe era doe ((doe - doe div 1460 + doe div 36524 - doe div 146096) div 365)"

definition civil_from_days :: "int \<Rightarrow> int \<times> int \<times> int" where
  "civil_from_days z = civil_of_doe ((z + 719468) div 146097) ((z + 719468) mod 146097)"

definition days_of_year :: "int \<Rightarrow> int \<Rightarrow> int" where
  "days_of_year y doy =
     (y div 400) * 146097 + (y mod 400) * 365 + (y mod 400) div 4 - (y mod 400) div 100
     + doy - 719468"

definition days_from_civil :: "int \<Rightarrow> int \<Rightarrow> int \<Rightarrow> int" where
  "days_from_civil y m d =
     days_of_year (if m \<le> 2 then y - 1 else y)
       ((153 * (if 2 < m then m - 3 else m + 9) + 2) div 5 + d - 1)"

definition digit_char :: "nat \<Rightarrow> char" where
  "digit_char d = ''0123456789'' ! (d mod 10)"

text \<open>The last two, three, four or six decimal digits of a number, zeros in front.\<close>

definition pad2 :: "nat \<Rightarrow> string" where
  "pad2 k = [digit_char (k div 10), digit_char k]"

definition pad3 :: "nat \<Rightarrow> string" where
  "pad3 k = digit_char (k div 100) # pad2 k"

definition pad4 :: "nat \<Rightarrow> string" where
  "pad4 k = digit_char (k div 1000) # pad3 k"

definition pad6 :: "nat \<Rightarrow> string" where
  "pad6 k = digit_char (k div 100000) # digit_char (k div 10000) # pad4 k"

definition iso_format :: "int \<Rightarrow> string" where
  "iso_format t =
     (case civil_from_days (t div 86400000) of
        (y, m, d) \<Rightarrow>
          (if 0 \<le> y \<and> y \<le> 9999 then pad4 (nat y)
           else (if y < 0 then ''-'' else ''+'') @ pad6 (nat \<bar>y\<bar>))
          @ ''-'' @ pad2 (nat m) @ ''-'' @ pad2 (nat d) @ ''T''
          @ pad2 (nat (t mod 86400000 div 3600000)) @ '':''
          @ pad2 (nat (t mod 3600000 div 60000)) @ '':''
          @ pad2 (nat (t mod 60000 div 1000)) @ ''.'' @ pad3 (nat (t mod 1000)) @ ''Z'')"

definition field :: "string \<Rightarrow> nat \<Rightarrow> nat \<Rightarrow> int option" where
  "field s pos len =
     (let ds = take len (drop pos s)
      in if length ds = len \<and> list_all is_digit ds then Some (int (digits_value ds)) else None)"

definition iso_parse :: "string \<Rightarrow> js_date" where
  "iso_parse s =
     (case (field s 0 4, field s 5 2, field s 8 2, field s 11 2, field s 14 2, field s 17 2,
            field s 20 3) of
        (Some y, Some mo, Some d, Some h, Some mi, Some sec, Some ms) \<Rightarrow>
          if length s = 24 \<and> map (\<lambda>i. s ! i) [4, 7, 10, 13, 16, 19, 23] = ''--T::.Z''
             \<and> 1 \<le> mo \<and> mo \<le> 12 \<and> 1 \<le> d \<and> d \<le> 31 \<and> h \<le> 23 \<and> mi \<le> 59 \<and> sec \<le> 59
          then Date (days_from_civil y mo d * 86400000
                     + h * 3600000 + mi * 60000 + sec * 1000 + ms)
          else InvalidDate
      | _ \<Rightarrow> InvalidDate)"

section \<open>Sample data\<close>

text \<open>A question with four options whose second option is recorded as the answer.\<close>

definition sample_question :: question where
  "sample_question =
     (new_Question 1 ''2 + 2 = ?'' [''A) 3'', ''B) 4'', ''C) 5'', ''D) 6''] (Fin 1) (Some Easy))
       \<lparr>userAnswer := Some (Fin 1)\<rparr>"

text \<open>
  An exam of three questions, two answered and one not, started on 14 November 2023 at
  22:13:20 UTC and ended 754.321 seconds later.
\<close>

definition sample_exam :: exam where
  "sample_exam =
     (new_Exam ''Arithmetic''
        [sample_question,
         (new_Question 2 ''3 * 3 = ?'' [''A) 6'', ''B) 7'', ''C) 8'', ''D) 9''] (Fin 3) None)
           \<lparr>userAnswer := Some (Fin 0)\<rparr>,
         new_Question 3 ''7 - 5 = ?'' [''A) 1'', ''B) 2'', ''C) 3'', ''D) 4''] (Fin 1) None]
        (Some (Fin 30)))
       \<lparr>startTime := Some (Date 1700000000000), endTime := Some (Date 1700000754321)\<rparr>"

text \<open>The same exam with the second option recorded for every question.\<close>

definition complete_exam :: exam where
  "complete_exam =
     sample_exam\<lparr>questions := map (\<lambda>q. q\<lparr>userAnswer := Some (Fin 1)\<rparr>) (questions sample_exam)\<rparr>"

definition empty_exam :: exam where
  "empty_exam = new_Exam ''Empty'' [] None"

text \<open>What \<open>toJSON\<close> gives for the sample question, with the answer index 9 put in.\<close>

definition corrupt_json :: question_json where
  "corrupt_json = (Question_toJSON sample_question)\<lparr>j_userAnswer := Some (Fin 9)\<rparr>"

text \<open>A text between double quotes.\<close>

definition quoted :: "string \<Rightarrow> string" where
  "quoted s = CHR 0x22 # s @ [CHR 0x22]"

text \<open>
  A response in a markdown fence: an array of two elements whose correct answers are the
  letters B and D, each with an \<open>id\<close> of the model's own.
\<close>

definition fenced_response :: string where
  "fenced_response =
     fence @ ''json'' @ [CHR 0x0A]
     @ ''[{'' @ quoted ''id'' @ '': 41, '' @ quoted ''question'' @ '': '' @ quoted ''2 + 2 = ?''
     @ '', '' @ quoted ''options'' @ '': ['' @ quoted ''A) 3'' @ '', '' @ quoted ''B) 4''
     @ '', '' @ quoted ''C) 5'' @ '', '' @ quoted ''D) 6'' @ ''], ''
     @ quoted ''correctAnswer'' @ '': '' @ quoted ''B'' @ ''},'' @ [CHR 0x0A]
     @ '' {'' @ quoted ''id'' @ '': 17, '' @ quoted ''question'' @ '': '' @ quoted ''3 * 3 = ?''
     @ '', '' @ quoted ''options'' @ '': ['' @ quoted ''A) 6'' @ '', '' @ quoted ''B) 7''
     @ '', '' @ quoted ''C) 8'' @ '', '' @ quoted ''D) 9'' @ ''], ''
     @ quoted ''correctAnswer'' @ '': '' @ quoted ''D'' @ ''}]'' @ [CHR 0x0A]
     @ fence"

definition fenced_items :: "json list" where
  "fenced_items =
     [JObj [(''id'', JNum 41), (''question'', JStr ''2 + 2 = ?''),
            (''options'', JArr [JStr ''A) 3'', JStr ''B) 4'', JStr ''C) 5'', JStr ''D) 6'']),
            (''correctAnswer'', JStr ''B'')],
      JObj [(''id'', JNum 17), (''question'', JStr ''3 * 3 = ?''),
            (''options'', JArr [JStr ''A) 6'', JStr ''B) 7'', JStr ''C) 8'', JStr ''D) 9'']),
            (''correctAnswer'', JStr ''D'')]]"

text \<open>A response whose only element names the letter E as the correct answer.\<close>

definition letter_E_response :: string where
  "letter_E_response =
     ''[{'' @ quoted ''question'' @ '': '' @ quoted ''2 + 2 = ?''
     @ '', '' @ quoted ''options'' @ '': ['' @ quoted ''A) 3'' @ '', '' @ quoted ''B) 4''
     @ '', '' @ quoted ''C) 5'' @ '', '' @ quoted ''D) 6'' @ ''], ''
     @ quoted ''correctAnswer'' @ '': '' @ quoted ''E'' @ ''}]''"

definition letter_E_items :: "json list" where
  "letter_E_items =
     [JObj [(''question'', JStr ''2 + 2 = ?''),
            (''options'', JArr [JStr ''A) 3'', JStr ''B) 4'', JStr ''C) 5'', JStr ''D) 6'']),
            (''correctAnswer'', JStr ''E'')]]"

text \<open>The same question with a fifth option, and E as the correct answer.\<close>

definition five_options_response :: string where
  "five_options_response =
     ''[{'' @ quoted ''question'' @ '': '' @ quoted ''2 + 2 = ?''
     @ '', '' @ quoted ''options'' @ '': ['' @ quoted ''A) 3'' @ '', '' @ quoted ''B) 5''
     @ '', '' @ quoted ''C) 6'' @ '', '' @ quoted ''D) 7'' @ '', '' @ quoted ''E) 4'' @ ''], ''
     @ quoted ''correctAnswer'' @ '': '' @ quoted ''E'' @ ''}]''"

definition five_options_items :: "json list" where
  "five_options_items =
     [JObj [(''question'', JStr ''2 + 2 = ?''),
            (''options'',
             JArr [JStr ''A) 3'', JStr ''B) 5'', JStr ''C) 6'', JStr ''D) 7'', JStr ''E) 4'']),
            (''correctAnswer'', JStr ''E'')]]"

definition five_options_question :: question where
  "five_options_question =
     new_Question 1 ''2 + 2 = ?'' [''A) 3'', ''B) 5'', ''C) 6'', ''D) 7'', ''E) 4''] (Fin 4) None"







section \<open>Lemmas on rounding\<close>

text \<open>
  The exponent found by \<open>binade\<close> brackets its argument, so a result in the normal
  range is within a relative \<open>2^(-53)\<close> of the exact value, and an integer below \<open>2^53\<close>
  in magnitude is its own rounding.
\<close>

lemma pow2_less_imp: "(2::rat) powi m < 2 powi n \<Longrightarrow> m < n"
  using power_int_increasing [of n m "2::rat"] by (cases "m < n") simp_all

lemma pow2_less: "m < n \<Longrightarrow> (2::rat) powi m < 2 powi n"
  by (rule power_int_strict_increasing) simp_all

lemma binade_up_bounds:
  "1 \<le> x \<Longrightarrow> 0 \<le> binade_up x \<and> 2 powi binade_up x \<le> x \<and> x < 2 powi (binade_up x + 1)"
proof (induction x rule: binade_up.induct)
  case (1 x)
  show ?case
  proof (cases "x < 2")
    case True
    with 1 show ?thesis by (subst (1 2 3) binade_up.simps) simp
  next
    case False
    then have half: "1 \<le> x / 2" by simp
    from 1(1) [OF False half] have ih: "0 \<le> binade_up (x / 2)"
      "2 powi binade_up (x / 2) \<le> x / 2" "x / 2 < 2 powi (binade_up (x / 2) + 1)"
      by simp_all
    have eq: "binade_up x = binade_up (x / 2) + 1"
      using False by (subst binade_up.simps) simp
    have step: "(2::rat) powi (e + 1) = 2 powi e * 2" for e
      by (simp add: power_int_add_1)
    show ?thesis
      using ih unfolding eq step [of "binade_up (x / 2)"] step [of "binade_up (x / 2) + 1"]
      by (simp add: field_simps)
  qed
qed

lemma binade_bounds:
  assumes "0 < x"
  shows "2 powi binade x \<le> x \<and> x < 2 powi (binade x + 1)"
proof (cases "1 \<le> x")
  case True
  then show ?thesis using binade_up_bounds [of x] by (simp add: binade_def)
next
  case False
  define k where "k = binade_up (1 / x)"
  from False assms have "1 \<le> 1 / x" by simp
  from binade_up_bounds [OF this] have k: "2 powi k \<le> 1 / x" "1 / x < 2 powi (k + 1)"
    by (simp_all add: k_def)
  have p: "0 < (2::rat) powi k" "0 < (2::rat) powi (k + 1)" by simp_all
  from k(1) assms p have upper: "x \<le> 2 powi (- k)"
    by (simp add: power_int_minus field_simps)
  from k(2) assms p have lower: "2 powi (- k - 1) < x"
  proof -
    have "- (k + 1) = - k - 1" by simp
    then have "(2::rat) powi (- k - 1) = 1 / 2 powi (k + 1)"
      using power_int_minus_divide [of "2::rat" "k + 1"] by simp
    moreover from k(2) assms p(2) have "1 / 2 powi (k + 1) < x"
      by (simp add: field_simps)
    ultimately show ?thesis by simp
  qed
  have next_up: "(2::rat) powi (- k) < 2 powi (- k + 1)"
    by (rule pow2_less) simp
  have b: "binade x = (if 2 powi (- k) \<le> x then - k else - k - 1)"
    using False by (simp only: binade_def k_def if_False)
  show ?thesis
  proof (cases "2 powi (- k) \<le> x")
    case True
    with b have "binade x = - k" by (simp only: if_True)
    then show ?thesis using True upper next_up by simp
  next
    case f: False
    with b have e: "binade x = - k - 1" by (simp only: if_False)
    have "x < 2 powi (- k)" using f by simp
    moreover have "2 powi (- k - 1) \<le> x" using lower by simp
    moreover have "- k - 1 + 1 = - k" by simp
    ultimately show ?thesis unfolding e by (simp only:)
  qed
qed

lemma round_half_even_error: "\<bar>of_int (round_half_even r) - r\<bar> \<le> 1 / 2"
proof -
  have "of_int \<lfloor>r\<rfloor> \<le> r" "r < of_int \<lfloor>r\<rfloor> + 1" by linarith+
  then show ?thesis by (simp add: round_half_even_def)
qed

lemma round_half_even_of_int [simp]: "round_half_even (of_int m) = m"
  by (simp add: round_half_even_def)


lemma quantum_normal:
  assumes "2 powi (- 1022) \<le> \<bar>x\<bar>"
  shows "quantum x = 2 powi binade \<bar>x\<bar> / 2 ^ 52"
proof -
  have pos: "0 < \<bar>x\<bar>"
    using assms zero_less_power_int [of "2::rat" "- 1022"] by linarith
  from binade_bounds [OF pos] assms have "(2::rat) powi (- 1022) < 2 powi (binade \<bar>x\<bar> + 1)"
    by linarith
  then have "- 1022 < binade \<bar>x\<bar> + 1"
    by (rule pow2_less_imp)
  then have "max (binade \<bar>x\<bar>) (- 1022) = binade \<bar>x\<bar>" by simp
  then show ?thesis
    by (simp add: quantum_def power_int_diff)
qed

lemma nearest_error:
  assumes "2 powi (- 1022) \<le> \<bar>x\<bar>"
  shows "\<bar>nearest x - x\<bar> \<le> \<bar>x\<bar> / 2 ^ 53"
proof -
  have pos: "0 < \<bar>x\<bar>"
    using assms zero_less_power_int [of "2::rat" "- 1022"] by linarith
  then have nz: "x \<noteq> 0" by simp
  define q where "q = quantum x"
  have q: "q = 2 powi binade \<bar>x\<bar> / 2 ^ 52"
    unfolding q_def using assms by (rule quantum_normal)
  have qpos: "0 < q" by (simp add: q)
  have "nearest x - x = (of_int (round_half_even (x / q)) - x / q) * q"
    using nz qpos by (simp add: nearest_def q_def [symmetric] field_simps)
  then have "\<bar>nearest x - x\<bar> = \<bar>of_int (round_half_even (x / q)) - x / q\<bar> * q"
    using qpos by (simp add: abs_mult)
  also have "\<dots> \<le> 1 / 2 * q"
    using round_half_even_error [of "x / q"] qpos by (intro mult_right_mono) simp_all
  also have "\<dots> = 2 powi binade \<bar>x\<bar> / 2 ^ 53"
    by (simp add: q)
  also have "\<dots> \<le> \<bar>x\<bar> / 2 ^ 53"
    using binade_bounds [OF pos] by (simp add: divide_right_mono)
  finally show ?thesis .
qed

lemma round64_normal:
  assumes "2 powi (- 1022) \<le> \<bar>x\<bar>" and "\<bar>x\<bar> \<le> 2 ^ 1023"
  shows "round64 x = Fin (nearest x)"
proof -
  define B where "B = (2::rat) ^ 1023"
  have B: "\<bar>x\<bar> \<le> B" "(2::rat) ^ 1024 = 2 * B"
    using assms(2) unfolding B_def by (simp_all only: power_Suc [symmetric]) simp_all
  have pos: "0 < \<bar>x\<bar>"
    using assms(1) zero_less_power_int [of "2::rat" "- 1022"] by linarith
  have "\<bar>x\<bar> / 2 ^ 53 \<le> \<bar>x\<bar> / 2"
    using pos by (intro divide_left_mono) simp_all
  with nearest_error [OF assms(1)] have "\<bar>nearest x - x\<bar> \<le> \<bar>x\<bar> / 2" by linarith
  with B(1) pos have "\<bar>nearest x\<bar> < 2 * B" by linarith
  then have "\<not> 2 ^ 1024 \<le> \<bar>nearest x\<bar>" by (simp only: B(2) not_le)
  then show ?thesis unfolding round64_def by (simp only: if_False)
qed

lemma nearest_of_int:
  assumes "\<bar>k\<bar> < 2 ^ 53"
  shows "nearest (of_int k) = of_int k"
proof (cases "k = 0")
  case True
  then show ?thesis by (simp add: nearest_def)
next
  case False
  define x where "x = (of_int k :: rat)"
  have "1 \<le> \<bar>k\<bar>" using False by simp
  then have "(of_int 1 :: rat) \<le> of_int \<bar>k\<bar>" by (simp only: of_int_le_iff)
  then have one: "1 \<le> \<bar>x\<bar>" by (simp add: x_def)
  define e where "e = binade \<bar>x\<bar>"
  have e0: "0 \<le> e"
    using one binade_up_bounds [of "\<bar>x\<bar>"] by (simp add: e_def binade_def)
  have pos: "0 < \<bar>x\<bar>" using one by linarith
  have "(of_int \<bar>k\<bar> :: rat) < of_int (2 ^ 53)"
    using assms by (simp only: of_int_less_iff)
  then have "\<bar>x\<bar> < 2 ^ 53" by (simp add: x_def)
  moreover have "(2::rat) powi 53 = 2 ^ 53" by simp
  ultimately have "(2::rat) powi e < 2 powi 53"
    using binade_bounds [OF pos] unfolding e_def by linarith
  then have "e < 53" by (rule pow2_less_imp)
  then have e52: "e \<le> 52" by simp
  have qq: "quantum x = 1 / 2 ^ nat (52 - e)"
  proof -
    have "max e (- 1022) - 52 = - (52 - e)" using e0 by simp
    then have "quantum x = 2 powi (- (52 - e))" by (simp add: quantum_def e_def)
    also have "\<dots> = 1 / 2 powi (52 - e)" by (rule power_int_minus_divide)
    also have "\<dots> = 1 / 2 ^ nat (52 - e)" using e52 by (simp add: power_int_nonneg_exp)
    finally show ?thesis .
  qed
  have "x / quantum x = of_int (k * 2 ^ nat (52 - e))"
    unfolding qq by (simp add: x_def)
  then have "round_half_even (x / quantum x) = k * 2 ^ nat (52 - e)"
    by (simp only: round_half_even_of_int)
  then have "nearest x = x"
    using False unfolding nearest_def qq by (simp add: x_def)
  then show ?thesis by (simp add: x_def)
qed

lemma round64_of_int:
  assumes "\<bar>k\<bar> < 2 ^ 53"
  shows "round64 (of_int k) = Fin (of_int k)"
proof -
  have "(of_int \<bar>k\<bar> :: rat) < of_int (2 ^ 53)"
    using assms by (simp only: of_int_less_iff)
  then have "\<bar>of_int k :: rat\<bar> < 2 ^ 53" by simp
  moreover have "(2::rat) ^ 53 \<le> 2 ^ 1024" by (rule power_increasing) simp_all
  ultimately have "\<not> (2::rat) ^ 1024 \<le> \<bar>of_int k\<bar>" by linarith
  then show ?thesis
    unfolding round64_def nearest_of_int [OF assms] by (simp only: if_False)
qed

lemma round64_0 [simp]: "round64 0 = Fin 0"
  using round64_of_int [of 0] by simp

lemma round64_1 [simp]: "round64 1 = Fin 1"
  using round64_of_int [of 1] by simp

lemma round64_100 [simp]: "round64 100 = Fin 100"
  using round64_of_int [of 100] by simp

lemma percentage_NaN:
  "a \<le> n \<Longrightarrow> n = 0 \<Longrightarrow> js_mul (js_div (js_num a) (js_num n)) (Fin 100) = NaN"
  by (simp add: js_num_def)

lemma percentage_none:
  "0 < n \<Longrightarrow> js_mul (js_div (js_num 0) (js_num n)) (Fin 100) = Fin 0"
  by (simp add: js_num_def)

lemma percentage_all:
  "0 < n \<Longrightarrow> js_mul (js_div (js_num n) (js_num n)) (Fin 100) = Fin 100"
  by (simp add: js_num_def)

lemma percentage_rounded:
  assumes n: "0 < n" "n < 2 ^ 32" and a: "a \<le> n"
  shows "\<exists>p. js_mul (js_div (js_num a) (js_num n)) (Fin 100) = Fin p \<and>
           \<bar>p - 100 * of_nat a / of_nat n\<bar> \<le> (100 * of_nat a / of_nat n) / 2 ^ 51"
proof (cases "a = 0")
  case True
  with n show ?thesis by (simp add: percentage_none)
next
  case False
  define x :: rat where "x = of_nat a / of_nat n"
  define y where "y = nearest x"
  define z where "z = nearest (y * 100)"
  have tiny: "(2::rat) powi (- 1022) \<le> 1 / 2 ^ 32"
    by (simp add: power_int_minus field_simps)
  have big: "(200::rat) \<le> 2 ^ 1023"
  proof -
    have "(2::rat) ^ 8 \<le> 2 ^ 1023" by (rule power_increasing) simp_all
    then show ?thesis by simp
  qed
  have "(of_nat n :: rat) < of_nat (2 ^ 32)"
    using n(2) by (simp only: of_nat_less_iff)
  then have nb: "(of_nat n :: rat) < 2 ^ 32" by simp
  have npos: "(0::rat) < of_nat n" using n(1) by simp
  have "(1::rat) \<le> of_nat a" using False by (simp add: Suc_le_eq)
  then have "1 / of_nat n \<le> x"
    unfolding x_def using npos by (simp add: divide_right_mono)
  moreover have "(1::rat) / 2 ^ 32 < 1 / of_nat n"
    using nb npos by (simp add: field_simps)
  ultimately have xlow: "1 / 2 ^ 32 < x" by linarith
  have "(of_nat a :: rat) \<le> of_nat n" using a by (simp only: of_nat_le_iff)
  then have xup: "x \<le> 1" unfolding x_def using npos by (simp add: field_simps)
  have xpos: "0 < x" using xlow by (simp add: less_trans [OF _ xlow])
  have xn: "2 powi (- 1022) \<le> \<bar>x\<bar>" using tiny xlow xpos by linarith
  have xb: "\<bar>x\<bar> \<le> 2 ^ 1023" using xup xpos big by linarith
  have r1: "round64 x = Fin y" unfolding y_def using xn xb by (rule round64_normal)
  have e1: "\<bar>y - x\<bar> \<le> x / 2 ^ 53"
    using nearest_error [OF xn] xpos unfolding y_def by simp
  have e1': "\<bar>y - x\<bar> \<le> x / 9007199254740992" using e1 by simp
  have ylow: "x / 2 \<le> y" and yup: "y \<le> 2 * x" using e1' xpos by linarith+
  define w where "w = y * 100"
  have wpos: "0 < w" using ylow xpos by (simp add: w_def)
  have wn: "2 powi (- 1022) \<le> \<bar>w\<bar>" using tiny xlow ylow by (simp add: w_def)
  have wb: "\<bar>w\<bar> \<le> 2 ^ 1023" using yup xup wpos big by (simp add: w_def)
  have r2: "round64 w = Fin z" unfolding z_def w_def [symmetric] using wn wb by (rule round64_normal)
  have e2: "\<bar>z - w\<bar> \<le> w / 2 ^ 53"
    using nearest_error [OF wn] wpos unfolding z_def w_def [symmetric] by simp
  have e2': "\<bar>z - y * 100\<bar> \<le> y * 100 / 9007199254740992" using e2 by (simp add: w_def)
  have "\<bar>z - 100 * x\<bar> \<le> 100 * x / 2251799813685248"
    using e1' e2' xpos by linarith
  then have bound: "\<bar>z - 100 * x\<bar> \<le> (100 * x) / 2 ^ 51" by simp
  have "js_mul (js_div (js_num a) (js_num n)) (Fin 100) = Fin z"
    using n(1) r1 r2 by (simp add: js_num_def x_def [symmetric] w_def [symmetric])
  with bound show ?thesis by (simp add: x_def)
qed

text \<open>
  Rounding of literals, by computation: two of three is 66.66666666666666 per cent, 29 of
  50 is 57.99999999999999, one of three is 33.33333333333333, and 7 of 10 is 70.
\<close>

lemma floor_rat_numeral: "\<lfloor>(numeral a :: rat) / numeral b\<rfloor> = numeral a div numeral b"
  using floor_divide_of_int_eq [of "numeral a" "numeral b", where 'a = rat] by simp

lemmas eval64 = round64_def nearest_def quantum_def binade_def binade_up.simps
  round_half_even_def floor_rat_numeral

lemma percentage_two_of_three:
  "js_mul (js_div (js_num 2) (js_num 3)) (Fin 100) = Fin (2345624805922133 / 35184372088832)"
  by (simp add: js_num_def eval64)

lemma percentage_samples:
  "js_mul (js_div (js_num 29) (js_num 50)) (Fin 100) = Fin (8162774324609023 / 140737488355328)"
  "js_mul (js_div (js_num 1) (js_num 3)) (Fin 100) = Fin (2345624805922133 / 70368744177664)"
  "js_mul (js_div (js_num 7) (js_num 10)) (Fin 100) = Fin 70"
  by (simp_all add: js_num_def eval64)

lemma two_hundred_thirds: "round64 (200 / 3) = Fin (4691249611844267 / 70368744177664)"
  by (simp add: eval64)

section \<open>Lemmas on the model\<close>

lemma getAnsweredCount_le: "getAnsweredCount e \<le> totalQuestions e"
  by (simp add: getAnsweredCount_def totalQuestions_def)

lemma calculateCorrectCount_le: "calculateCorrectCount e \<le> totalQuestions e"
  by (simp add: calculateCorrectCount_def totalQuestions_def)

lemma new_ExamResult_Inr:
  "new_ExamResult now e =
     Inr \<lparr>r_exam = e, score = calculateCorrectCount e,
          percentage = js_mul (js_div (js_num (calculateCorrectCount e))
                                 (js_num (totalQuestions e))) (Fin 100),
          grade = calculateGrade (js_mul (js_div (js_num (calculateCorrectCount e))
                                 (js_num (totalQuestions e))) (Fin 100)),
          correctCount = calculateCorrectCount e,
          incorrectCount = totalQuestions e - calculateCorrectCount e,
          completionTime = getElapsedTime now e\<rparr>"
  by (simp add: new_ExamResult_def Let_def)

lemma exam_end_endTime [simp]: "endTime (exam_end now e) = Some (Date now)"
  by (simp add: exam_end_def)

lemma exam_end_questions [simp]: "questions (exam_end now e) = questions e"
  by (simp add: exam_end_def)

lemma exam_end_counts [simp]:
  "totalQuestions (exam_end now e) = totalQuestions e"
  "calculateCorrectCount (exam_end now e) = calculateCorrectCount e"
  by (simp_all add: totalQuestions_def calculateCorrectCount_def)

lemma setUserAnswer_in_range:
  "answer_in_range q a \<Longrightarrow> setUserAnswer a q = (Inr (), q\<lparr>userAnswer := Some a\<rparr>)"
  by (cases a) (simp_all add: answer_in_range_def setUserAnswer_def js_num_def)

lemma setUserAnswer_out_of_range:
  "\<not> answer_in_range q a \<Longrightarrow> setUserAnswer a q = (Inl (Error ''Invalid answer index''), q)"
  by (cases a) (auto simp: answer_in_range_def setUserAnswer_def js_num_def)

lemma answer_in_range_new_Question:
  "answer_in_range (new_Question (q_id q) (q_text q) (options q) (correctIndex q) (difficulty q)) a
     = answer_in_range q a"
  by (cases a) (simp_all add: answer_in_range_def new_Question_def)

text \<open>The invariant holds after construction and is kept by \<open>setUserAnswer\<close>.\<close>

lemma question_inv_new_Question: "question_inv (new_Question i t os ci d)"
  by (simp add: question_inv_def new_Question_def)

lemma question_inv_setUserAnswer:
  "question_inv q \<Longrightarrow> question_inv (snd (setUserAnswer a q))"
proof (cases "answer_in_range q a")
  case True
  assume "question_inv q"
  from True show ?thesis
    by (cases a) (simp_all add: setUserAnswer_in_range question_inv_def answer_in_range_def)
next
  case False
  assume "question_inv q"
  with False show ?thesis by (simp add: setUserAnswer_out_of_range)
qed

lemma Question_roundtrip:
  assumes "question_inv q"
  shows "Question_fromJSON (Question_toJSON q) = Inr q"
proof (cases "userAnswer q")
  case None
  then show ?thesis
    by (simp add: Question_fromJSON_def Question_toJSON_def new_Question_def)
next
  case (Some a)
  with assms have "answer_in_range q a" by (simp add: question_inv_def)
  then have "answer_in_range
      (new_Question (q_id q) (q_text q) (options q) (correctIndex q) (difficulty q)) a"
    by (simp add: answer_in_range_new_Question)
  then show ?thesis
    using Some
    by (simp add: Question_fromJSON_def Question_toJSON_def setUserAnswer_in_range)
       (simp add: new_Question_def)
qed

lemma map_fromJSON_roundtrip:
  "\<forall>x\<in>set qs. question_inv x \<Longrightarrow> map_fromJSON (map Question_toJSON qs) = Inr qs"
  by (induction qs) (simp_all add: Question_roundtrip)

lemma restore_date_roundtrip:
  assumes "d \<noteq> Some InvalidDate"
    and "\<forall>t. d = Some (Date t) \<longrightarrow> toISOString t \<noteq> [] \<and> parseDate (toISOString t) = Date t"
  shows "\<exists>s. date_toISOString toISOString d = Inr s \<and> restore_date parseDate s = d"
proof (cases d)
  case None
  then show ?thesis by (simp add: date_toISOString_def restore_date_def)
next
  case (Some x)
  with assms(1) obtain t where "x = Date t" by (cases x) auto
  with Some assms(2) show ?thesis
    by (simp add: date_toISOString_def restore_date_def)
qed

section \<open>Lemmas on the response parser\<close>

lemma toQuestion_well_typed:
  assumes "well_typed_item item"
  shows "\<exists>s t os. answer_of item = Some s
           \<and> text_of (get_prop item ''question'') = Some t
           \<and> options_of (get_prop item ''options'') = Some os
           \<and> toQuestion i item =
               Returns (new_Question (int i + 1) t os
                          (js_sub (charCodeAt0 (charAt0 (toUpperCase s))) (Fin 65)) None)"
proof -
  from assms obtain s t os where s: "answer_of item = Some s"
    and t: "text_of (get_prop item ''question'') = Some t"
    and os: "options_of (get_prop item ''options'') = Some os"
    by (auto simp: well_typed_item_def)
  from s have c: "get_prop item ''correctAnswer'' = Some (JStr s)"
    by (auto simp: answer_of_def split: option.splits json.splits)
  then have nn: "item \<noteq> JNull" by (auto simp: get_prop_def)
  have "toQuestion i item =
          Returns (new_Question (int i + 1) t os
                     (js_sub (charCodeAt0 (charAt0 (toUpperCase s))) (Fin 65)) None)"
    using nn c t os by (cases item) (simp_all add: toQuestion_def Let_def)
  with s t os show ?thesis by blast
qed

lemma convert_all_well_typed:
  assumes "\<forall>item\<in>set items. well_typed_item item"
  shows "\<exists>qs. convert_all i items = Returns qs \<and> length qs = length items
           \<and> (\<forall>k<length items. toQuestion (i + k) (items ! k) = Returns (qs ! k))"
  using assms
proof (induction items arbitrary: i)
  case Nil
  then show ?case by simp
next
  case (Cons item items)
  from Cons.prems have "well_typed_item item" by simp
  then obtain q where q: "toQuestion i item = Returns q"
    using toQuestion_well_typed [of item i] by blast
  from Cons.prems have "\<forall>x\<in>set items. well_typed_item x" by simp
  from Cons.IH [OF this, of "Suc i"] obtain qs where qs:
    "convert_all (Suc i) items = Returns qs" "length qs = length items"
    "\<forall>k<length items. toQuestion (Suc i + k) (items ! k) = Returns (qs ! k)"
    by blast
  have "convert_all i (item # items) = Returns (q # qs)"
    using q qs(1) by simp
  moreover have "length (q # qs) = length (item # items)"
    using qs(2) by simp
  moreover have "\<forall>k<length (item # items).
      toQuestion (i + k) ((item # items) ! k) = Returns ((q # qs) ! k)"
  proof (intro allI impI)
    fix k assume "k < length (item # items)"
    then show "toQuestion (i + k) ((item # items) ! k) = Returns ((q # qs) ! k)"
      using q qs(3) by (cases k) simp_all
  qed
  ultimately show ?case by blast
qed

lemma toQuestion_Returns:
  assumes "toQuestion i item = Returns q"
  shows "\<exists>s t os. answer_of item = Some s
           \<and> text_of (get_prop item ''question'') = Some t
           \<and> options_of (get_prop item ''options'') = Some os
           \<and> q = new_Question (int i + 1) t os
                   (js_sub (charCodeAt0 (charAt0 (toUpperCase s))) (Fin 65)) None"
  using assms
  by (auto simp: toQuestion_def answer_of_def Let_def
      split: json.splits option.splits prod.splits)

lemma convert_all_Returns:
  "convert_all i items = Returns qs \<Longrightarrow>
     length qs = length items
     \<and> (\<forall>k<length items. toQuestion (i + k) (items ! k) = Returns (qs ! k))"
proof (induction items arbitrary: i qs)
  case Nil
  then show ?case by simp
next
  case (Cons item items)
  from Cons.prems obtain q qs' where q: "toQuestion i item = Returns q"
    and rest: "convert_all (Suc i) items = Returns qs'" and qs: "qs = q # qs'"
    by (auto split: completion.splits)
  from Cons.IH [OF rest] have ih: "length qs' = length items"
    "\<forall>k<length items. toQuestion (Suc i + k) (items ! k) = Returns (qs' ! k)"
    by simp_all
  have "\<forall>k<length (item # items).
      toQuestion (i + k) ((item # items) ! k) = Returns (qs ! k)"
  proof (intro allI impI)
    fix k assume "k < length (item # items)"
    then show "toQuestion (i + k) ((item # items) ! k) = Returns (qs ! k)"
      using q ih(2) qs by (cases k) simp_all
  qed
  with ih(1) qs show ?case by simp
qed

text \<open>
  The code units of an upper-cased string are below 1000, so the subtraction of 65 is
  exact; the upper-cased string is empty only when the string is.
\<close>

lemma toUpperCase_unit_bound: "n < 256 \<Longrightarrow> u \<in> set (toUpperCase_unit n) \<Longrightarrow> u < 1000"
  by (auto simp: toUpperCase_unit_def split: if_splits)

lemma toUpperCase_bound: "u \<in> set (toUpperCase s) \<Longrightarrow> u < 1000"
  using toUpperCase_unit_bound [OF nat_of_char_less_256] by (auto simp: toUpperCase_def)

lemma toUpperCase_empty: "(toUpperCase s = []) = (s = [])"
  by (cases s) (simp_all add: toUpperCase_def toUpperCase_unit_def)

lemma toUpperCase_letters:
  "toUpperCase (CHR ''A'' # cs) = 65 # toUpperCase cs"
  "toUpperCase (CHR ''a'' # cs) = 65 # toUpperCase cs"
  "toUpperCase (CHR ''B'' # cs) = 66 # toUpperCase cs"
  "toUpperCase (CHR ''b'' # cs) = 66 # toUpperCase cs"
  "toUpperCase (CHR ''C'' # cs) = 67 # toUpperCase cs"
  "toUpperCase (CHR ''c'' # cs) = 67 # toUpperCase cs"
  "toUpperCase (CHR ''D'' # cs) = 68 # toUpperCase cs"
  "toUpperCase (CHR ''d'' # cs) = 68 # toUpperCase cs"
  by (simp_all add: toUpperCase_def toUpperCase_unit_def)

lemma toUpperCase_latin1:
  "toUpperCase ''E'' = [69]" "toUpperCase ''e'' = [69]"
  "toUpperCase [CHR 0xE9] = [201]" "toUpperCase [CHR 0xDF] = [83, 83]"
  "toUpperCase [CHR 0xB5] = [924]" "toUpperCase [CHR 0xFF] = [376]"
  "toUpperCase [CHR 0xF7] = [247]" "toUpperCase ''1'' = [49]"
  by (simp_all add: toUpperCase_def toUpperCase_unit_def)

lemma code_unit_index:
  assumes "u < 1000"
  shows "js_sub (Fin (of_nat u)) (Fin 65) = Fin (of_nat u - 65)"
proof -
  have "\<bar>int u - 65\<bar> < 2 ^ 53" using assms by simp
  from round64_of_int [OF this] show ?thesis by simp
qed

lemma first_unit_index:
  assumes "toUpperCase s = u # us"
  shows "js_sub (charCodeAt0 (charAt0 (toUpperCase s))) (Fin 65) = Fin (of_nat u - 65)"
proof -
  have "u < 1000" using toUpperCase_bound [of u s] assms by simp
  moreover have "charCodeAt0 (charAt0 (toUpperCase s)) = Fin (of_nat u)"
    using assms by (simp add: charCodeAt0_def charAt0_def)
  ultimately show ?thesis by (simp only: code_unit_index)
qed

text \<open>An empty correct answer has no first character: the index is NaN.\<close>

lemma empty_letter_index:
  "js_sub (charCodeAt0 (charAt0 (toUpperCase []))) (Fin 65) = NaN"
  by (simp add: charCodeAt0_def charAt0_def toUpperCase_def)

text \<open>Reading an array at a code unit minus 65.\<close>

lemma js_index_code_unit:
  "js_index xs (Fin (of_nat u - 65)) =
     (if 65 \<le> u \<and> u - 65 < length xs then Some (xs ! (u - 65)) else None)"
proof (cases "65 \<le> u")
  case True
  then obtain k where k: "u = k + 65" using le_Suc_ex [of 65 u] by auto
  have eq: "(of_nat (k + 65) :: rat) - 65 = of_nat k" by simp
  show ?thesis unfolding k eq by (simp add: js_index_def)
next
  case False
  then have "(of_nat u :: rat) < of_nat 65" by (simp only: of_nat_less_iff not_le)
  then have "(of_nat u :: rat) - 65 < 0" by simp
  with False show ?thesis by (simp add: js_index_def)
qed

lemma answer_in_range_code_unit:
  "answer_in_range q (Fin (of_nat u - 65)) = (65 \<le> u \<and> u - 65 < length (options q))"
proof (cases "65 \<le> u")
  case True
  then obtain k where k: "u = k + 65" using le_Suc_ex [of 65 u] by auto
  have eq: "(of_nat (k + 65) :: rat) - 65 = of_nat k" by simp
  show ?thesis unfolding k eq by (simp add: answer_in_range_def)
next
  case False
  then have "(of_nat u :: rat) < of_nat 65" by (simp only: of_nat_less_iff not_le)
  then have "(of_nat u :: rat) - 65 < 0" by simp
  with False show ?thesis by (simp add: answer_in_range_def)
qed

lemma parse_well_typed:
  assumes "JSON_parse (cleanResponse responseText) = Inr (JArr items)"
    and "\<forall>item\<in>set items. well_typed_item item"
  shows "\<exists>qs. parseQuestionsFromResponse JSON_parse responseText = (Returns qs, [])
           \<and> length qs = length items
           \<and> (\<forall>k<length items. toQuestion k (items ! k) = Returns (qs ! k))"
  using convert_all_well_typed [OF assms(2), of 0] assms(1)
  by (simp add: parseQuestionsFromResponse_def questionsOfData_def)






section \<open>Runs on the sample data\<close>

lemma iso_format_start: "iso_format 1700000000000 = ''2023-11-14T22:13:20.000Z''"
  by (simp add: iso_format_def civil_from_days_def civil_of_doe_def civil_of_yoe_def
      civil_of_doy_def civil_of_mp_def pad2_def pad3_def pad4_def digit_char_def)

lemma iso_format_end: "iso_format 1700000754321 = ''2023-11-14T22:25:54.321Z''"
  by (simp add: iso_format_def civil_from_days_def civil_of_doe_def civil_of_yoe_def
      civil_of_doy_def civil_of_mp_def pad2_def pad3_def pad4_def digit_char_def)

lemma iso_parse_start: "iso_parse ''2023-11-14T22:13:20.000Z'' = Date 1700000000000"
  by (simp add: iso_parse_def field_def is_digit_def digits_value_def days_from_civil_def
      days_of_year_def)

lemma iso_parse_end: "iso_parse ''2023-11-14T22:25:54.321Z'' = Date 1700000754321"
  by (simp add: iso_parse_def field_def is_digit_def digits_value_def days_from_civil_def
      days_of_year_def)

lemma sample_question_inv: "question_inv sample_question"
  by (simp add: sample_question_def question_inv_def answer_in_range_def new_Question_def)

lemma sample_exam_inv: "\<forall>x\<in>set (questions sample_exam). question_inv x"
  by (simp add: sample_exam_def new_Exam_def sample_question_def question_inv_def
      answer_in_range_def new_Question_def)

lemma sample_exam_counts:
  "\<not> canSubmit sample_exam" "canSubmit complete_exam" "totalQuestions complete_exam = 3"
  "calculateCorrectCount complete_exam = 2" "getAnsweredCount sample_exam = 2"
  "totalQuestions sample_exam = 3"
  by (simp_all add: canSubmit_def getAnsweredCount_def totalQuestions_def
      calculateCorrectCount_def isAnswered_def isCorrect_def js_strict_eq_def
      complete_exam_def sample_exam_def sample_question_def new_Exam_def new_Question_def)

lemma parse_fenced: "json_parse (cleanResponse fenced_response) = Inr (JArr fenced_items)"
  by code_simp

lemma fenced_items_well_typed: "\<forall>item\<in>set fenced_items. well_typed_item item"
  by (simp add: fenced_items_def well_typed_item_def answer_of_def get_prop_def text_of_def
      options_of_def)

lemma fenced_items_answers:
  "answer_of (fenced_items ! 0) = Some ''B''" "answer_of (fenced_items ! 1) = Some ''D''"
  by (simp_all add: fenced_items_def answer_of_def get_prop_def)

lemma parse_letter_E:
  "json_parse (cleanResponse letter_E_response) = Inr (JArr letter_E_items)"
  by code_simp


lemma letter_E_items_well_typed: "\<forall>item\<in>set letter_E_items. well_typed_item item"
  by (simp add: letter_E_items_def well_typed_item_def answer_of_def get_prop_def text_of_def
      options_of_def)

lemma letter_E_items_answer:
  "answer_of (letter_E_items ! 0) = Some ''E''"
  "options_of (get_prop (letter_E_items ! 0) ''options'')
     = Some [''A) 3'', ''B) 4'', ''C) 5'', ''D) 6'']"
  by (simp_all add: letter_E_items_def answer_of_def get_prop_def options_of_def)

lemma parse_five_options:
  "json_parse (cleanResponse five_options_response) = Inr (JArr five_options_items)"
  by code_simp

lemma five_options_items_well_typed: "\<forall>item\<in>set five_options_items. well_typed_item item"
  by (simp add: five_options_items_def well_typed_item_def answer_of_def get_prop_def
      text_of_def options_of_def)

lemma five_options_items_answer:
  "answer_of (five_options_items ! 0) = Some ''E''"
  "options_of (get_prop (five_options_items ! 0) ''options'')
     = Some [''A) 3'', ''B) 5'', ''C) 6'', ''D) 7'', ''E) 4'']"
  "text_of (get_prop (five_options_items ! 0) ''question'') = Some ''2 + 2 = ?''"
  by (simp_all add: five_options_items_def answer_of_def get_prop_def options_of_def
      text_of_def)












section \<open>The claims\<close>

subsection \<open>Grades\<close>

text \<open>
  Claim C1. The letter grade of an ExamResult is a function of its percentage with fixed
  half-open cutoffs: 90 and above is A, 80 and above is B, 70 and above is C, 60 and above
  is D, everything below 60 is F, so that each letter has its half-open interval; exactly
  90.0 is A and 89.9 is B. (NaN compares false with every cutoff, so it is graded F; the
  constructor stores the grade of the percentage it has just computed.)
\<close>

theorem calculateGrade_cutoffs:
  "calculateGrade (Fin p) =
     (if 90 \<le> p then ''A'' else if 80 \<le> p then ''B'' else if 70 \<le> p then ''C''
      else if 60 \<le> p then ''D'' else ''F'')
   \<and> (calculateGrade (Fin p) = ''A'') = (90 \<le> p)
   \<and> (calculateGrade (Fin p) = ''B'') = (80 \<le> p \<and> p < 90)
   \<and> (calculateGrade (Fin p) = ''C'') = (70 \<le> p \<and> p < 80)
   \<and> (calculateGrade (Fin p) = ''D'') = (60 \<le> p \<and> p < 70)
   \<and> (calculateGrade (Fin p) = ''F'') = (p < 60)
   \<and> calculateGrade NaN = ''F''
   \<and> (\<exists>r. new_ExamResult now e = Inr r \<and> grade r = calculateGrade (percentage r))
   \<and> calculateGrade (Fin 90) = ''A'' \<and> calculateGrade (Fin (899 / 10)) = ''B''
   \<and> calculateGrade (Fin 80) = ''B'' \<and> calculateGrade (Fin (799 / 10)) = ''C''
   \<and> calculateGrade (Fin 70) = ''C'' \<and> calculateGrade (Fin (699 / 10)) = ''D''
   \<and> calculateGrade (Fin 60) = ''D'' \<and> calculateGrade (Fin (599 / 10)) = ''F''"
proof -
  have cases: "calculateGrade (Fin p) =
     (if 90 \<le> p then ''A'' else if 80 \<le> p then ''B'' else if 70 \<le> p then ''C''
      else if 60 \<le> p then ''D'' else ''F'')"
    by (simp add: calculateGrade_def)
  have intervals: "(calculateGrade (Fin p) = ''A'') = (90 \<le> p)"
    "(calculateGrade (Fin p) = ''B'') = (80 \<le> p \<and> p < 90)"
    "(calculateGrade (Fin p) = ''C'') = (70 \<le> p \<and> p < 80)"
    "(calculateGrade (Fin p) = ''D'') = (60 \<le> p \<and> p < 70)"
    "(calculateGrade (Fin p) = ''F'') = (p < 60)"
    unfolding cases by auto
  have stored: "\<exists>r. new_ExamResult now e = Inr r \<and> grade r = calculateGrade (percentage r)"
    by (simp add: new_ExamResult_def Let_def)
  have boundaries: "calculateGrade NaN = ''F''"
    "calculateGrade (Fin 90) = ''A''" "calculateGrade (Fin (899 / 10)) = ''B''"
    "calculateGrade (Fin 80) = ''B''" "calculateGrade (Fin (799 / 10)) = ''C''"
    "calculateGrade (Fin 70) = ''C''" "calculateGrade (Fin (699 / 10)) = ''D''"
    "calculateGrade (Fin 60) = ''D''" "calculateGrade (Fin (599 / 10)) = ''F''"
    by (simp_all add: calculateGrade_def)
  from cases intervals stored boundaries show ?thesis by blast
qed

subsection \<open>Progress\<close>

text \<open>
  Claim C2 says that \<open>getProgressPercentage\<close> returns 0 for an Exam without questions.
  The method divides the answered count by the question count and has no case for zero:
  on the empty exam it returns NaN, which is not 0.
\<close>

theorem getProgressPercentage_empty_counterexample:
  "getProgressPercentage empty_exam = NaN \<and> getProgressPercentage empty_exam \<noteq> Fin 0"
  by (simp add: getProgressPercentage_def empty_exam_def new_Exam_def getAnsweredCount_def
      totalQuestions_def js_num_def)

text \<open>
  Claim C2, amended. \<open>getProgressPercentage\<close> returns NaN for an Exam without questions.
  For an Exam with at least one question (and fewer than \<open>2^32\<close>, as every array has) it
  returns the binary64 product by 100 of the binary64 quotient of the answered count and
  the question count: a finite number within the relative distance \<open>2^(-51)\<close> of 100 times
  the answered count over the question count, which is exactly 0 when nothing is answered
  and exactly 100 when everything is. It need not be the nearest binary64 number: with
  two of three questions answered it is 2345624805922133 / 35184372088832, printed
  66.66666666666666, where the nearest one to 200 / 3 is 66.66666666666667.
\<close>

theorem getProgressPercentage_value:
  "(totalQuestions e = 0 \<longrightarrow> getProgressPercentage e = NaN)
   \<and> (0 < totalQuestions e \<and> totalQuestions e < 2 ^ 32 \<longrightarrow>
        (\<exists>p. getProgressPercentage e = Fin p
           \<and> \<bar>p - 100 * of_nat (getAnsweredCount e) / of_nat (totalQuestions e)\<bar>
               \<le> (100 * of_nat (getAnsweredCount e) / of_nat (totalQuestions e)) / 2 ^ 51))
   \<and> (0 < totalQuestions e \<and> getAnsweredCount e = 0 \<longrightarrow> getProgressPercentage e = Fin 0)
   \<and> (0 < totalQuestions e \<and> getAnsweredCount e = totalQuestions e \<longrightarrow>
        getProgressPercentage e = Fin 100)"
proof -
  have none: "totalQuestions e = 0 \<longrightarrow> getProgressPercentage e = NaN"
    unfolding getProgressPercentage_def
    using percentage_NaN [OF getAnsweredCount_le [of e]] by blast
  have bound: "0 < totalQuestions e \<and> totalQuestions e < 2 ^ 32 \<longrightarrow>
        (\<exists>p. getProgressPercentage e = Fin p
           \<and> \<bar>p - 100 * of_nat (getAnsweredCount e) / of_nat (totalQuestions e)\<bar>
               \<le> (100 * of_nat (getAnsweredCount e) / of_nat (totalQuestions e)) / 2 ^ 51)"
    unfolding getProgressPercentage_def
    using percentage_rounded [of "totalQuestions e" "getAnsweredCount e"]
      getAnsweredCount_le [of e]
    by blast
  have zero: "0 < totalQuestions e \<and> getAnsweredCount e = 0 \<longrightarrow>
        getProgressPercentage e = Fin 0"
    by (simp add: getProgressPercentage_def percentage_none)
  have full: "0 < totalQuestions e \<and> getAnsweredCount e = totalQuestions e \<longrightarrow>
        getProgressPercentage e = Fin 100"
    by (simp add: getProgressPercentage_def percentage_all)
  from none bound zero full show ?thesis by blast
qed

theorem getProgressPercentage_value_witness:
  "getProgressPercentage empty_exam = NaN
   \<and> (\<exists>p. getProgressPercentage sample_exam = Fin p
          \<and> \<bar>p - 100 * 2 / 3\<bar> \<le> (100 * 2 / 3) / 2 ^ 51)
   \<and> getProgressPercentage sample_exam = Fin (2345624805922133 / 35184372088832)
   \<and> getProgressPercentage sample_exam \<noteq> round64 (100 * 2 / 3)"
proof -
  have empty: "totalQuestions empty_exam = 0"
    by (simp add: totalQuestions_def empty_exam_def new_Exam_def)
  have a: "getProgressPercentage empty_exam = NaN"
    using getProgressPercentage_value [of empty_exam] empty by simp
  have b: "\<exists>p. getProgressPercentage sample_exam = Fin p
          \<and> \<bar>p - 100 * 2 / 3\<bar> \<le> (100 * 2 / 3) / 2 ^ 51"
    using getProgressPercentage_value [of sample_exam] sample_exam_counts(5,6) by simp
  have c: "getProgressPercentage sample_exam = Fin (2345624805922133 / 35184372088832)"
    unfolding getProgressPercentage_def sample_exam_counts(5,6)
    by (rule percentage_two_of_three)
  have d: "getProgressPercentage sample_exam \<noteq> round64 (100 * 2 / 3)"
    unfolding c using two_hundred_thirds by simp
  from a b c d show ?thesis by blast
qed

subsection \<open>The ExamResult of an exam without questions\<close>

text \<open>
  Claim C3 says that constructing an ExamResult from an Exam without questions fails with
  an error. The constructor has no check: on the empty exam it returns a result whose
  percentage is NaN and whose grade is F.
\<close>

theorem new_ExamResult_empty_counterexample:
  "new_ExamResult 0 empty_exam =
     Inr \<lparr>r_exam = empty_exam, score = 0, percentage = NaN, grade = ''F'',
          correctCount = 0, incorrectCount = 0, completionTime = Fin 0\<rparr>
   \<and> \<not> isl (new_ExamResult 0 empty_exam)"
  by (simp add: new_ExamResult_Inr calculateCorrectCount_def totalQuestions_def
      js_num_def calculateGrade_def getElapsedTime_def empty_exam_def new_Exam_def)

text \<open>
  Claim C3, amended. Constructing an ExamResult never fails. From an Exam without questions
  it completes with the percentage NaN, the grade F and all counts 0. The empty case is
  refused earlier, where exams are created: \<open>createExamFromFile\<close> fails with the error
  "No questions found in the document" when the AI service returns an empty list, and
  leaves the service as it was.
\<close>

theorem new_ExamResult_never_throws:
  "(\<exists>r. new_ExamResult now e = Inr r)
   \<and> (totalQuestions e = 0 \<longrightarrow>
        (\<exists>r. new_ExamResult now e = Inr r \<and> percentage r = NaN \<and> grade r = ''F''
             \<and> score r = 0 \<and> correctCount r = 0 \<and> incorrectCount r = 0))
   \<and> createExamFromFile (Inr []) ttl now s =
        (Inl (Error ''No questions found in the document''), s)"
proof -
  have made: "\<exists>r. new_ExamResult now e = Inr r"
    by (simp add: new_ExamResult_Inr)
  have empty: "\<exists>r. new_ExamResult now e = Inr r \<and> percentage r = NaN \<and> grade r = ''F''
             \<and> score r = 0 \<and> correctCount r = 0 \<and> incorrectCount r = 0"
    if none: "totalQuestions e = 0"
  proof -
    have zero: "calculateCorrectCount e = 0"
      using none calculateCorrectCount_le [of e] by simp
    have nan: "js_mul (js_div (js_num (calculateCorrectCount e)) (js_num (totalQuestions e)))
                 (Fin 100) = NaN"
      using percentage_NaN [OF calculateCorrectCount_le [of e] none] .
    show ?thesis
      unfolding new_ExamResult_Inr nan by (simp add: zero none calculateGrade_def)
  qed
  have refused: "createExamFromFile (Inr []) ttl now s =
        (Inl (Error ''No questions found in the document''), s)"
    by (simp add: createExamFromFile_def)
  from made empty refused show ?thesis by blast
qed

theorem new_ExamResult_never_throws_witness:
  "(\<exists>r. new_ExamResult 5 empty_exam = Inr r \<and> percentage r = NaN
        \<and> grade r = ''F'' \<and> score r = 0 \<and> correctCount r = 0 \<and> incorrectCount r = 0)
   \<and> createExamFromFile (Inr []) ''AI Generated Exam'' 5 \<lparr>currentExam = None\<rparr> =
        (Inl (Error ''No questions found in the document''), \<lparr>currentExam = None\<rparr>)"
  using new_ExamResult_never_throws [of 5 empty_exam "''AI Generated Exam''"
      "\<lparr>currentExam = None\<rparr>"]
  by (simp add: totalQuestions_def empty_exam_def new_Exam_def)

subsection \<open>Recording an answer\<close>

text \<open>
  Claim C4. For every Question and every integer index, \<open>setUserAnswer\<close> fails with the
  error "Invalid answer index" exactly when the index is outside \<open>[0, options.length)\<close>;
  when it fails the Question, and with it any answer recorded before, is unchanged; when it
  succeeds the index is stored and \<open>isAnswered\<close> is true afterwards.
\<close>

theorem setUserAnswer_validates:
  fixes i :: int
  shows "(fst (setUserAnswer (Fin (of_int i)) q) = Inl (Error ''Invalid answer index''))
           = (i < 0 \<or> int (length (options q)) \<le> i)
   \<and> (fst (setUserAnswer (Fin (of_int i)) q) = Inr ())
           = (0 \<le> i \<and> i < int (length (options q)))
   \<and> (fst (setUserAnswer (Fin (of_int i)) q) \<noteq> Inr () \<longrightarrow>
         snd (setUserAnswer (Fin (of_int i)) q) = q)
   \<and> (fst (setUserAnswer (Fin (of_int i)) q) = Inr () \<longrightarrow>
         snd (setUserAnswer (Fin (of_int i)) q) = q\<lparr>userAnswer := Some (Fin (of_int i))\<rparr>
         \<and> isAnswered (snd (setUserAnswer (Fin (of_int i)) q)))"
proof -
  have lt: "(rat_of_int i < rat_of_nat (length (options q))) = (i < int (length (options q)))"
    by (metis of_int_less_iff of_int_of_nat_eq)
  show ?thesis
    by (auto simp: setUserAnswer_def js_num_def isAnswered_def lt)
qed

theorem setUserAnswer_validates_witness:
  "fst (setUserAnswer (Fin (of_int 7)) sample_question) = Inl (Error ''Invalid answer index'')
   \<and> snd (setUserAnswer (Fin (of_int 7)) sample_question) = sample_question
   \<and> userAnswer (snd (setUserAnswer (Fin (of_int 7)) sample_question)) = Some (Fin 1)
   \<and> fst (setUserAnswer (Fin (of_int (- 1))) sample_question)
       = Inl (Error ''Invalid answer index'')
   \<and> fst (setUserAnswer (Fin (of_int 2)) sample_question) = Inr ()
   \<and> userAnswer (snd (setUserAnswer (Fin (of_int 2)) sample_question)) = Some (Fin 2)
   \<and> isAnswered (snd (setUserAnswer (Fin (of_int 2)) sample_question))"
  using setUserAnswer_validates [of 7 sample_question]
    setUserAnswer_validates [of "- 1" sample_question]
    setUserAnswer_validates [of 2 sample_question]
  by (auto simp: sample_question_def new_Question_def)

subsection \<open>Serialization\<close>

text \<open>
  Claim C5. Serializing and deserializing a Question, with or without a recorded answer,
  gives the Question back, and so does serializing and deserializing an Exam, timestamps
  included: they come back equal to the millisecond, hence to the second. The Question and
  the questions of the Exam satisfy the invariant of the data model (a recorded answer is
  inside the options), the timestamps are valid dates, and the platform reads back the
  text it writes for them. \<open>Question.fromJSON\<close> passes a stored answer to
  \<open>setUserAnswer\<close>: it throws exactly the error the live call throws, and for an index
  outside the options that is "Invalid answer index".
\<close>

theorem serialization_roundtrip:
  assumes "question_inv q"
    and "\<forall>x\<in>set (questions e). question_inv x"
    and "startTime e \<noteq> Some InvalidDate" and "endTime e \<noteq> Some InvalidDate"
    and "\<forall>t. Some (Date t) \<in> {startTime e, endTime e} \<longrightarrow>
           toISOString t \<noteq> [] \<and> parseDate (toISOString t) = Date t"
  shows "Question_fromJSON (Question_toJSON q) = Inr q
    \<and> (\<exists>d. Exam_toJSON toISOString e = Inr d \<and> Exam_fromJSON parseDate d = Inr e)
    \<and> (\<forall>a err. j_userAnswer data = Some a \<longrightarrow>
          (Question_fromJSON data = Inl err) =
          (fst (setUserAnswer a (new_Question (j_id data) (j_text data) (j_options data)
                  (j_correctIndex data) (j_difficulty data))) = Inl err))
    \<and> (\<forall>i::int. j_userAnswer data = Some (Fin (of_int i))
           \<and> (i < 0 \<or> int (length (j_options data)) \<le> i) \<longrightarrow>
          Question_fromJSON data = Inl (Error ''Invalid answer index''))"
proof -
  have q: "Question_fromJSON (Question_toJSON q) = Inr q"
    using assms(1) by (rule Question_roundtrip)
  obtain st where st: "date_toISOString toISOString (startTime e) = Inr st"
      "restore_date parseDate st = startTime e"
    using restore_date_roundtrip [of "startTime e" toISOString parseDate] assms(3,5) by auto
  obtain en where en: "date_toISOString toISOString (endTime e) = Inr en"
      "restore_date parseDate en = endTime e"
    using restore_date_roundtrip [of "endTime e" toISOString parseDate] assms(4,5) by auto
  have ex: "\<exists>d. Exam_toJSON toISOString e = Inr d \<and> Exam_fromJSON parseDate d = Inr e"
    using st en map_fromJSON_roundtrip [OF assms(2)]
    by (simp add: Exam_toJSON_def Exam_fromJSON_def new_Exam_def)
  have same: "\<forall>a err. j_userAnswer data = Some a \<longrightarrow>
          (Question_fromJSON data = Inl err) =
          (fst (setUserAnswer a (new_Question (j_id data) (j_text data) (j_options data)
                  (j_correctIndex data) (j_difficulty data))) = Inl err)"
    by (auto simp: Question_fromJSON_def Let_def split: prod.splits sum.splits)
  have corrupt: "\<forall>i::int. j_userAnswer data = Some (Fin (of_int i))
           \<and> (i < 0 \<or> int (length (j_options data)) \<le> i) \<longrightarrow>
          Question_fromJSON data = Inl (Error ''Invalid answer index'')"
  proof (intro allI impI)
    fix i :: int
    assume h: "j_userAnswer data = Some (Fin (of_int i))
           \<and> (i < 0 \<or> int (length (j_options data)) \<le> i)"
    have "\<not> answer_in_range (new_Question (j_id data) (j_text data) (j_options data)
                  (j_correctIndex data) (j_difficulty data)) (Fin (of_int i))"
      using h by (auto simp: answer_in_range_def new_Question_def)
    then show "Question_fromJSON data = Inl (Error ''Invalid answer index'')"
      using h by (simp add: Question_fromJSON_def setUserAnswer_out_of_range)
  qed
  show ?thesis using q ex same corrupt by blast
qed

theorem serialization_roundtrip_witness:
  "Question_fromJSON (Question_toJSON sample_question) = Inr sample_question
   \<and> (\<exists>d. Exam_toJSON iso_format sample_exam = Inr d
          \<and> Exam_fromJSON iso_parse d = Inr sample_exam
          \<and> j_startTime d = Some ''2023-11-14T22:13:20.000Z''
          \<and> j_endTime d = Some ''2023-11-14T22:25:54.321Z'')
   \<and> Question_fromJSON corrupt_json = Inl (Error ''Invalid answer index'')
   \<and> fst (setUserAnswer (Fin 9) sample_question) = Inl (Error ''Invalid answer index'')"
proof -
  have dates: "startTime sample_exam = Some (Date 1700000000000)"
    "endTime sample_exam = Some (Date 1700000754321)"
    by (simp_all add: sample_exam_def)
  have platform: "\<forall>t. Some (Date t) \<in> {startTime sample_exam, endTime sample_exam} \<longrightarrow>
           iso_format t \<noteq> [] \<and> iso_parse (iso_format t) = Date t"
    by (auto simp: dates iso_format_start iso_format_end iso_parse_start iso_parse_end)
  have valid: "startTime sample_exam \<noteq> Some InvalidDate" "endTime sample_exam \<noteq> Some InvalidDate"
    by (simp_all add: dates)
  have corrupt: "j_userAnswer corrupt_json = Some (Fin (of_int 9))"
    "length (j_options corrupt_json) = 4"
    by (simp_all add: corrupt_json_def Question_toJSON_def sample_question_def new_Question_def)
  from serialization_roundtrip [OF sample_question_inv sample_exam_inv valid platform,
      of corrupt_json]
  have q: "Question_fromJSON (Question_toJSON sample_question) = Inr sample_question"
    and e: "\<exists>d. Exam_toJSON iso_format sample_exam = Inr d
              \<and> Exam_fromJSON iso_parse d = Inr sample_exam"
    and c: "\<forall>i::int. j_userAnswer corrupt_json = Some (Fin (of_int i))
           \<and> (i < 0 \<or> int (length (j_options corrupt_json)) \<le> i) \<longrightarrow>
          Question_fromJSON corrupt_json = Inl (Error ''Invalid answer index'')"
    by blast+
  from c corrupt have c9: "Question_fromJSON corrupt_json = Inl (Error ''Invalid answer index'')"
    by simp
  from e obtain d where d: "Exam_toJSON iso_format sample_exam = Inr d"
    "Exam_fromJSON iso_parse d = Inr sample_exam"
    by blast
  from d(1) have "j_startTime d = Some ''2023-11-14T22:13:20.000Z''"
    "j_endTime d = Some ''2023-11-14T22:25:54.321Z''"
    by (auto simp: Exam_toJSON_def date_toISOString_def dates iso_format_start iso_format_end)
  with d have e': "\<exists>d. Exam_toJSON iso_format sample_exam = Inr d
          \<and> Exam_fromJSON iso_parse d = Inr sample_exam
          \<and> j_startTime d = Some ''2023-11-14T22:13:20.000Z''
          \<and> j_endTime d = Some ''2023-11-14T22:25:54.321Z''"
    by blast
  have live: "fst (setUserAnswer (Fin 9) sample_question) = Inl (Error ''Invalid answer index'')"
    by (simp add: setUserAnswer_def sample_question_def new_Question_def js_num_def)
  show ?thesis using q e' c9 live by blast
qed

subsection \<open>The response parser\<close>

text \<open>
  Claim C6. For every AI response whose text, after the markdown fence is stripped, parses
  as a JSON array: when the parser returns Questions there is one for each element, the
  k-th of them has the identifier k + 1, whatever identifier the element carries, and a
  correct answer that starts with A, B, C or D, in upper or lower case, gives the
  correctIndex 0, 1, 2 or 3. The parser does return when every element has a string as
  its correct answer and a question and options that fit the Question fields. On the
  fenced array of two elements with the answers B and D it returns two Questions with the
  identifiers 1 and 2 and the correctIndex 1 and 3.
\<close>

theorem parse_maps_letters_and_numbers_questions:
  assumes "JSON_parse (cleanResponse responseText) = Inr (JArr items)"
  shows "(\<forall>qs. fst (parseQuestionsFromResponse JSON_parse responseText) = Returns qs \<longrightarrow>
           length qs = length items
           \<and> (\<forall>k<length items.
                 q_id (qs ! k) = int k + 1
                 \<and> (\<forall>c cs. answer_of (items ! k) = Some (c # cs) \<longrightarrow>
                       (c = CHR ''A'' \<or> c = CHR ''a'' \<longrightarrow> correctIndex (qs ! k) = Fin 0)
                     \<and> (c = CHR ''B'' \<or> c = CHR ''b'' \<longrightarrow> correctIndex (qs ! k) = Fin 1)
                     \<and> (c = CHR ''C'' \<or> c = CHR ''c'' \<longrightarrow> correctIndex (qs ! k) = Fin 2)
                     \<and> (c = CHR ''D'' \<or> c = CHR ''d'' \<longrightarrow> correctIndex (qs ! k) = Fin 3))))
    \<and> ((\<forall>item\<in>set items. well_typed_item item) \<longrightarrow>
         (\<exists>qs. parseQuestionsFromResponse JSON_parse responseText = (Returns qs, [])))"
proof -
  have run: "parseQuestionsFromResponse JSON_parse responseText = (convert_all 0 items, [])"
    using assms by (simp add: parseQuestionsFromResponse_def questionsOfData_def)
  have part1: "length qs = length items
           \<and> (\<forall>k<length items.
                 q_id (qs ! k) = int k + 1
                 \<and> (\<forall>c cs. answer_of (items ! k) = Some (c # cs) \<longrightarrow>
                       (c = CHR ''A'' \<or> c = CHR ''a'' \<longrightarrow> correctIndex (qs ! k) = Fin 0)
                     \<and> (c = CHR ''B'' \<or> c = CHR ''b'' \<longrightarrow> correctIndex (qs ! k) = Fin 1)
                     \<and> (c = CHR ''C'' \<or> c = CHR ''c'' \<longrightarrow> correctIndex (qs ! k) = Fin 2)
                     \<and> (c = CHR ''D'' \<or> c = CHR ''d'' \<longrightarrow> correctIndex (qs ! k) = Fin 3)))"
    if ret: "fst (parseQuestionsFromResponse JSON_parse responseText) = Returns qs" for qs
  proof -
    from ret run have "convert_all 0 items = Returns qs" by simp
    from convert_all_Returns [OF this] have len: "length qs = length items"
      and each: "\<forall>k<length items. toQuestion k (items ! k) = Returns (qs ! k)"
      by simp_all
    have "q_id (qs ! k) = int k + 1
          \<and> (\<forall>c cs. answer_of (items ! k) = Some (c # cs) \<longrightarrow>
                (c = CHR ''A'' \<or> c = CHR ''a'' \<longrightarrow> correctIndex (qs ! k) = Fin 0)
              \<and> (c = CHR ''B'' \<or> c = CHR ''b'' \<longrightarrow> correctIndex (qs ! k) = Fin 1)
              \<and> (c = CHR ''C'' \<or> c = CHR ''c'' \<longrightarrow> correctIndex (qs ! k) = Fin 2)
              \<and> (c = CHR ''D'' \<or> c = CHR ''d'' \<longrightarrow> correctIndex (qs ! k) = Fin 3))"
      if k: "k < length items" for k
    proof -
      from each k have "toQuestion k (items ! k) = Returns (qs ! k)" by simp
      from toQuestion_Returns [OF this]
      obtain s t os where s: "answer_of (items ! k) = Some s"
        and q: "qs ! k = new_Question (int k + 1) t os
                   (js_sub (charCodeAt0 (charAt0 (toUpperCase s))) (Fin 65)) None"
        by blast
      have idx: "correctIndex (qs ! k) = js_sub (charCodeAt0 (charAt0 (toUpperCase s))) (Fin 65)"
        using q by (simp add: new_Question_def)
      have ident: "q_id (qs ! k) = int k + 1"
        using q by (simp add: new_Question_def)
      have letters: "(c = CHR ''A'' \<or> c = CHR ''a'' \<longrightarrow> correctIndex (qs ! k) = Fin 0)
              \<and> (c = CHR ''B'' \<or> c = CHR ''b'' \<longrightarrow> correctIndex (qs ! k) = Fin 1)
              \<and> (c = CHR ''C'' \<or> c = CHR ''c'' \<longrightarrow> correctIndex (qs ! k) = Fin 2)
              \<and> (c = CHR ''D'' \<or> c = CHR ''d'' \<longrightarrow> correctIndex (qs ! k) = Fin 3)"
        if c: "answer_of (items ! k) = Some (c # cs)" for c cs
      proof -
        from s c have sc: "s = c # cs" by simp
        show ?thesis
          unfolding idx sc
          using first_unit_index [OF toUpperCase_letters(1), of cs]
            first_unit_index [OF toUpperCase_letters(2), of cs]
            first_unit_index [OF toUpperCase_letters(3), of cs]
            first_unit_index [OF toUpperCase_letters(4), of cs]
            first_unit_index [OF toUpperCase_letters(5), of cs]
            first_unit_index [OF toUpperCase_letters(6), of cs]
            first_unit_index [OF toUpperCase_letters(7), of cs]
            first_unit_index [OF toUpperCase_letters(8), of cs]
          by auto
      qed
      with ident show ?thesis by blast
    qed
    with len show ?thesis by blast
  qed
  have part2: "(\<forall>item\<in>set items. well_typed_item item) \<longrightarrow>
         (\<exists>qs. parseQuestionsFromResponse JSON_parse responseText = (Returns qs, []))"
    using parse_well_typed [of JSON_parse responseText items, OF assms] by blast
  from part1 part2 show ?thesis by blast
qed

theorem parse_maps_letters_and_numbers_questions_witness:
  "\<exists>qs. parseQuestionsFromResponse json_parse fenced_response = (Returns qs, [])
        \<and> length qs = 2
        \<and> q_id (qs ! 0) = 1 \<and> correctIndex (qs ! 0) = Fin 1
        \<and> q_id (qs ! 1) = 2 \<and> correctIndex (qs ! 1) = Fin 3"
proof -
  note inst = parse_maps_letters_and_numbers_questions
    [of json_parse fenced_response fenced_items, OF parse_fenced]
  from inst fenced_items_well_typed obtain qs where
    ret: "parseQuestionsFromResponse json_parse fenced_response = (Returns qs, [])"
    by blast
  then have "fst (parseQuestionsFromResponse json_parse fenced_response) = Returns qs"
    by simp
  with inst have len: "length qs = length fenced_items"
    and each: "\<forall>k<length fenced_items.
        q_id (qs ! k) = int k + 1
        \<and> (\<forall>c cs. answer_of (fenced_items ! k) = Some (c # cs) \<longrightarrow>
              (c = CHR ''A'' \<or> c = CHR ''a'' \<longrightarrow> correctIndex (qs ! k) = Fin 0)
            \<and> (c = CHR ''B'' \<or> c = CHR ''b'' \<longrightarrow> correctIndex (qs ! k) = Fin 1)
            \<and> (c = CHR ''C'' \<or> c = CHR ''c'' \<longrightarrow> correctIndex (qs ! k) = Fin 2)
            \<and> (c = CHR ''D'' \<or> c = CHR ''d'' \<longrightarrow> correctIndex (qs ! k) = Fin 3))"
    by blast+
  have two: "length fenced_items = 2" by (simp add: fenced_items_def)
  from each two have k0: "q_id (qs ! 0) = 1 \<and> correctIndex (qs ! 0) = Fin 1"
    using fenced_items_answers(1) by (auto dest!: spec [of _ 0])
  from each two have k1: "q_id (qs ! 1) = 2 \<and> correctIndex (qs ! 1) = Fin 3"
    using fenced_items_answers(2) by (auto dest!: spec [of _ 1])
  show ?thesis using ret len two k0 k1 by auto
qed




text \<open>
  Claim C10 says that a letter outside A to D yields an index outside the options, where
  \<open>getCorrectAnswer\<close> reads past their end. The parser does not check the number of
  options either: on the response whose element has five options and the correct answer
  E it returns a Question with the correctIndex 4, which is inside the options, and
  \<open>getCorrectAnswer\<close> yields the fifth option.
\<close>

theorem parse_letter_outside_A_to_D_counterexample:
  "parseQuestionsFromResponse json_parse five_options_response =
     (Returns [five_options_question], [])
   \<and> correctIndex five_options_question = Fin 4
   \<and> options five_options_question = [''A) 3'', ''B) 5'', ''C) 6'', ''D) 7'', ''E) 4'']
   \<and> answer_in_range five_options_question (correctIndex five_options_question)
   \<and> getCorrectAnswer five_options_question = Some ''E) 4''"
proof -
  have idx: "js_sub (charCodeAt0 (charAt0 (toUpperCase ''E''))) (Fin 65) = Fin 4"
    using first_unit_index [OF toUpperCase_latin1(1)] by simp
  have run: "parseQuestionsFromResponse json_parse five_options_response =
       (Returns [five_options_question], [])"
    by (simp add: parseQuestionsFromResponse_def parse_five_options questionsOfData_def
        five_options_items_def toQuestion_def get_prop_def text_of_def options_of_def idx
        five_options_question_def)
  have rest: "correctIndex five_options_question = Fin 4"
    "options five_options_question = [''A) 3'', ''B) 5'', ''C) 6'', ''D) 7'', ''E) 4'']"
    "answer_in_range five_options_question (correctIndex five_options_question)"
    "getCorrectAnswer five_options_question = Some ''E) 4''"
    by (simp_all add: five_options_question_def new_Question_def answer_in_range_def
        getCorrectAnswer_def js_index_def)
  from run rest show ?thesis by blast
qed

text \<open>
  Claim C10, amended. The parser does not validate the correct answer: for every element
  that is converted, correctIndex is the first code unit of the upper-cased correct answer
  minus 65, and NaN when the correct answer is empty. The constructor takes the index as
  it is. \<open>getCorrectAnswer\<close> never fails: it yields the option at that index when the
  code unit is at least 65 and less than 65 plus the number of options, and \<open>undefined\<close>
  otherwise, so with at most four options every first code unit other than those of A to
  D gives an index outside the options and \<open>undefined\<close>.
\<close>

theorem parse_does_not_validate_letter:
  assumes "JSON_parse (cleanResponse responseText) = Inr (JArr items)"
    and "\<forall>item\<in>set items. well_typed_item item"
    and "k < length items"
    and "answer_of (items ! k) = Some s"
  shows "\<exists>qs. parseQuestionsFromResponse JSON_parse responseText = (Returns qs, [])
           \<and> k < length qs
           \<and> options_of (get_prop (items ! k) ''options'') = Some (options (qs ! k))
           \<and> (s = [] \<longrightarrow> correctIndex (qs ! k) = NaN \<and> getCorrectAnswer (qs ! k) = None)
           \<and> (\<forall>u us. toUpperCase s = u # us \<longrightarrow>
                 correctIndex (qs ! k) = Fin (of_nat u - 65)
               \<and> getCorrectAnswer (qs ! k) =
                   (if 65 \<le> u \<and> u - 65 < length (options (qs ! k))
                    then Some (options (qs ! k) ! (u - 65)) else None)
               \<and> answer_in_range (qs ! k) (correctIndex (qs ! k)) =
                   (65 \<le> u \<and> u - 65 < length (options (qs ! k)))
               \<and> (u \<notin> {65, 66, 67, 68} \<and> length (options (qs ! k)) \<le> 4 \<longrightarrow>
                    \<not> answer_in_range (qs ! k) (correctIndex (qs ! k))
                    \<and> getCorrectAnswer (qs ! k) = None))"
proof -
  from parse_well_typed [of JSON_parse responseText items, OF assms(1,2)] obtain qs where qs:
    "parseQuestionsFromResponse JSON_parse responseText = (Returns qs, [])"
    "length qs = length items"
    "\<forall>k<length items. toQuestion k (items ! k) = Returns (qs ! k)"
    by blast
  from assms(2,3) have "well_typed_item (items ! k)" by simp
  from toQuestion_well_typed [OF this, of k] qs(3) assms(3,4)
  obtain t os where os: "options_of (get_prop (items ! k) ''options'') = Some os"
    and q: "qs ! k = new_Question (int k + 1) t os
               (js_sub (charCodeAt0 (charAt0 (toUpperCase s))) (Fin 65)) None"
    by auto
  have ci: "correctIndex (qs ! k) = js_sub (charCodeAt0 (charAt0 (toUpperCase s))) (Fin 65)"
    using q by (simp add: new_Question_def)
  have opts: "options (qs ! k) = os"
    using q by (simp add: new_Question_def)
  have empty: "s = [] \<longrightarrow> correctIndex (qs ! k) = NaN \<and> getCorrectAnswer (qs ! k) = None"
    using ci by (simp add: empty_letter_index getCorrectAnswer_def js_index_def)
  have unit: "correctIndex (qs ! k) = Fin (of_nat u - 65)
      \<and> getCorrectAnswer (qs ! k) =
          (if 65 \<le> u \<and> u - 65 < length (options (qs ! k))
           then Some (options (qs ! k) ! (u - 65)) else None)
      \<and> answer_in_range (qs ! k) (correctIndex (qs ! k)) =
          (65 \<le> u \<and> u - 65 < length (options (qs ! k)))
      \<and> (u \<notin> {65, 66, 67, 68} \<and> length (options (qs ! k)) \<le> 4 \<longrightarrow>
           \<not> answer_in_range (qs ! k) (correctIndex (qs ! k))
           \<and> getCorrectAnswer (qs ! k) = None)"
    if up: "toUpperCase s = u # us" for u us
  proof -
    have idx: "correctIndex (qs ! k) = Fin (of_nat u - 65)"
      unfolding ci by (rule first_unit_index [OF up])
    have get: "getCorrectAnswer (qs ! k) =
          (if 65 \<le> u \<and> u - 65 < length (options (qs ! k))
           then Some (options (qs ! k) ! (u - 65)) else None)"
      unfolding getCorrectAnswer_def idx by (rule js_index_code_unit)
    have inr: "answer_in_range (qs ! k) (correctIndex (qs ! k)) =
          (65 \<le> u \<and> u - 65 < length (options (qs ! k)))"
      unfolding idx by (rule answer_in_range_code_unit)
    have out: "u \<notin> {65, 66, 67, 68} \<and> length (options (qs ! k)) \<le> 4 \<longrightarrow>
           \<not> answer_in_range (qs ! k) (correctIndex (qs ! k))
           \<and> getCorrectAnswer (qs ! k) = None"
      unfolding get inr by auto
    from idx get inr out show ?thesis by blast
  qed
  show ?thesis
    using qs(1,2) assms(3) os opts empty unit by auto
qed

theorem parse_does_not_validate_letter_witness:
  "(\<exists>qs. parseQuestionsFromResponse json_parse letter_E_response = (Returns qs, [])
        \<and> correctIndex (qs ! 0) = Fin 4
        \<and> options (qs ! 0) = [''A) 3'', ''B) 4'', ''C) 5'', ''D) 6'']
        \<and> \<not> answer_in_range (qs ! 0) (correctIndex (qs ! 0))
        \<and> getCorrectAnswer (qs ! 0) = None)
   \<and> (\<exists>qs. parseQuestionsFromResponse json_parse five_options_response = (Returns qs, [])
        \<and> correctIndex (qs ! 0) = Fin 4
        \<and> options (qs ! 0) = [''A) 3'', ''B) 5'', ''C) 6'', ''D) 7'', ''E) 4'']
        \<and> answer_in_range (qs ! 0) (correctIndex (qs ! 0))
        \<and> getCorrectAnswer (qs ! 0) = Some ''E) 4'')"
proof -
  have len: "0 < length letter_E_items" by (simp add: letter_E_items_def)
  from parse_does_not_validate_letter
    [of json_parse letter_E_response letter_E_items 0 "''E''",
     OF parse_letter_E letter_E_items_well_typed len letter_E_items_answer(1)]
  obtain qs where qs:
    "parseQuestionsFromResponse json_parse letter_E_response = (Returns qs, [])"
    "options_of (get_prop (letter_E_items ! 0) ''options'') = Some (options (qs ! 0))"
    "\<forall>u us. toUpperCase ''E'' = u # us \<longrightarrow>
        correctIndex (qs ! 0) = Fin (of_nat u - 65)
      \<and> getCorrectAnswer (qs ! 0) =
          (if 65 \<le> u \<and> u - 65 < length (options (qs ! 0))
           then Some (options (qs ! 0) ! (u - 65)) else None)
      \<and> answer_in_range (qs ! 0) (correctIndex (qs ! 0)) =
          (65 \<le> u \<and> u - 65 < length (options (qs ! 0)))"
    by blast
  from qs(2) have opts: "options (qs ! 0) = [''A) 3'', ''B) 4'', ''C) 5'', ''D) 6'']"
    by (simp add: letter_E_items_answer(2))
  from qs(3) toUpperCase_latin1(1) have at:
    "correctIndex (qs ! 0) = Fin (of_nat 69 - 65)
      \<and> getCorrectAnswer (qs ! 0) =
          (if 65 \<le> (69::nat) \<and> 69 - 65 < length (options (qs ! 0))
           then Some (options (qs ! 0) ! (69 - 65)) else None)
      \<and> answer_in_range (qs ! 0) (correctIndex (qs ! 0)) =
          (65 \<le> (69::nat) \<and> 69 - 65 < length (options (qs ! 0)))"
    by blast
  then have four: "correctIndex (qs ! 0) = Fin 4
      \<and> \<not> answer_in_range (qs ! 0) (correctIndex (qs ! 0))
      \<and> getCorrectAnswer (qs ! 0) = None"
    by (auto simp: opts)
  have len5: "0 < length five_options_items" by (simp add: five_options_items_def)
  from parse_does_not_validate_letter
    [of json_parse five_options_response five_options_items 0 "''E''",
     OF parse_five_options five_options_items_well_typed len5 five_options_items_answer(1)]
  obtain ps where ps:
    "parseQuestionsFromResponse json_parse five_options_response = (Returns ps, [])"
    "options_of (get_prop (five_options_items ! 0) ''options'') = Some (options (ps ! 0))"
    "\<forall>u us. toUpperCase ''E'' = u # us \<longrightarrow>
        correctIndex (ps ! 0) = Fin (of_nat u - 65)
      \<and> getCorrectAnswer (ps ! 0) =
          (if 65 \<le> u \<and> u - 65 < length (options (ps ! 0))
           then Some (options (ps ! 0) ! (u - 65)) else None)
      \<and> answer_in_range (ps ! 0) (correctIndex (ps ! 0)) =
          (65 \<le> u \<and> u - 65 < length (options (ps ! 0)))"
    by blast
  from ps(2) have opts5:
    "options (ps ! 0) = [''A) 3'', ''B) 5'', ''C) 6'', ''D) 7'', ''E) 4'']"
    by (simp add: five_options_items_answer(2))
  from ps(3) toUpperCase_latin1(1) have at5:
    "correctIndex (ps ! 0) = Fin (of_nat 69 - 65)
      \<and> getCorrectAnswer (ps ! 0) =
          (if 65 \<le> (69::nat) \<and> 69 - 65 < length (options (ps ! 0))
           then Some (options (ps ! 0) ! (69 - 65)) else None)
      \<and> answer_in_range (ps ! 0) (correctIndex (ps ! 0)) =
          (65 \<le> (69::nat) \<and> 69 - 65 < length (options (ps ! 0)))"
    by blast
  then have five: "correctIndex (ps ! 0) = Fin 4
      \<and> answer_in_range (ps ! 0) (correctIndex (ps ! 0))
      \<and> getCorrectAnswer (ps ! 0) = Some ''E) 4''"
    by (auto simp: opts5)
  from qs(1) opts four ps(1) opts5 five show ?thesis by blast
qed

subsection \<open>Completing an exam\<close>

text \<open>
  Claim C8 says that the percentage of the ExamResult that \<open>completeExam\<close> returns equals
  100 times the correct answers over the questions. The constructor divides first and
  multiplies the rounded quotient by 100: for the exam with two correct answers of three
  the percentage is 2345624805922133 / 35184372088832, printed 66.66666666666666, which
  is neither 200 / 3 nor the binary64 number nearest to it, 66.66666666666667.
\<close>

theorem completeExam_percentage_counterexample:
  "canSubmit complete_exam \<and> calculateCorrectCount complete_exam = 2
   \<and> totalQuestions complete_exam = 3
   \<and> map_sum (\<lambda>e. e) percentage
        (fst (completeExam 1700000754321 \<lparr>currentExam = Some complete_exam\<rparr>))
      = Inr (Fin (2345624805922133 / 35184372088832))
   \<and> Fin (2345624805922133 / 35184372088832) \<noteq> Fin (100 * 2 / 3)
   \<and> Fin (2345624805922133 / 35184372088832) \<noteq> round64 (100 * 2 / 3)"
proof -
  have run: "map_sum (\<lambda>e. e) percentage
        (fst (completeExam 1700000754321 \<lparr>currentExam = Some complete_exam\<rparr>))
      = Inr (Fin (2345624805922133 / 35184372088832))"
    by (simp add: completeExam_def Let_def sample_exam_counts new_ExamResult_Inr
        percentage_two_of_three)
  have ne: "Fin (2345624805922133 / 35184372088832) \<noteq> Fin (100 * 2 / 3)"
    "Fin (2345624805922133 / 35184372088832) \<noteq> round64 (100 * 2 / 3)"
    using two_hundred_thirds by simp_all
  from run ne sample_exam_counts(2,3,4) show ?thesis by blast
qed

text \<open>
  Claim C8, amended. \<open>completeExam\<close> fails with the error "No exam to complete" when the
  service has no current Exam, and with "Not all questions have been answered" when
  \<open>canSubmit\<close> of the current Exam is false; in both cases the service is unchanged.
  Otherwise it stamps the end time on the current Exam and returns the ExamResult of that
  Exam. For an Exam with a question (and fewer than \<open>2^32\<close>, as every array has) its
  percentage is the binary64 product by 100 of the binary64 quotient of the correct
  answers and the questions: a finite number within the relative distance \<open>2^(-51)\<close> of
  100 times the correct answers over the questions, exactly 100 when every answer is
  correct and exactly 0 when none is.
\<close>

theorem completeExam_outcomes:
  "(currentExam s = None \<longrightarrow> completeExam now s = (Inl (Error ''No exam to complete''), s))
   \<and> (\<forall>e. currentExam s = Some e \<and> \<not> canSubmit e \<longrightarrow>
         completeExam now s = (Inl (Error ''Not all questions have been answered''), s))
   \<and> (\<forall>e. currentExam s = Some e \<and> canSubmit e \<longrightarrow>
         (\<exists>r. completeExam now s = (Inr r, s\<lparr>currentExam := Some (exam_end now e)\<rparr>)
              \<and> new_ExamResult now (exam_end now e) = Inr r
              \<and> r_exam r = exam_end now e
              \<and> endTime (r_exam r) = Some (Date now)
              \<and> (0 < totalQuestions e \<and> totalQuestions e < 2 ^ 32 \<longrightarrow>
                   (\<exists>p. percentage r = Fin p
                      \<and> \<bar>p - 100 * of_nat (calculateCorrectCount e) / of_nat (totalQuestions e)\<bar>
                          \<le> (100 * of_nat (calculateCorrectCount e)
                                / of_nat (totalQuestions e)) / 2 ^ 51))
              \<and> (0 < totalQuestions e \<and> calculateCorrectCount e = totalQuestions e \<longrightarrow>
                   percentage r = Fin 100)
              \<and> (0 < totalQuestions e \<and> calculateCorrectCount e = 0 \<longrightarrow>
                   percentage r = Fin 0)))"
proof -
  have none: "currentExam s = None \<longrightarrow>
      completeExam now s = (Inl (Error ''No exam to complete''), s)"
    by (simp add: completeExam_def)
  have refused: "\<forall>e. currentExam s = Some e \<and> \<not> canSubmit e \<longrightarrow>
      completeExam now s = (Inl (Error ''Not all questions have been answered''), s)"
    by (simp add: completeExam_def)
  have completed: "\<exists>r. completeExam now s = (Inr r, s\<lparr>currentExam := Some (exam_end now e)\<rparr>)
              \<and> new_ExamResult now (exam_end now e) = Inr r
              \<and> r_exam r = exam_end now e
              \<and> endTime (r_exam r) = Some (Date now)
              \<and> (0 < totalQuestions e \<and> totalQuestions e < 2 ^ 32 \<longrightarrow>
                   (\<exists>p. percentage r = Fin p
                      \<and> \<bar>p - 100 * of_nat (calculateCorrectCount e) / of_nat (totalQuestions e)\<bar>
                          \<le> (100 * of_nat (calculateCorrectCount e)
                                / of_nat (totalQuestions e)) / 2 ^ 51))
              \<and> (0 < totalQuestions e \<and> calculateCorrectCount e = totalQuestions e \<longrightarrow>
                   percentage r = Fin 100)
              \<and> (0 < totalQuestions e \<and> calculateCorrectCount e = 0 \<longrightarrow>
                   percentage r = Fin 0)"
    if cur: "currentExam s = Some e" and sub: "canSubmit e" for e
  proof -
    define pc where "pc = js_mul (js_div (js_num (calculateCorrectCount e))
                                    (js_num (totalQuestions e))) (Fin 100)"
    obtain r where r: "new_ExamResult now (exam_end now e) = Inr r"
      and pr: "percentage r = pc" and re: "r_exam r = exam_end now e"
      by (simp add: new_ExamResult_Inr pc_def)
    have run: "completeExam now s = (Inr r, s\<lparr>currentExam := Some (exam_end now e)\<rparr>)"
      using cur sub r by (simp add: completeExam_def Let_def)
    have stamp: "endTime (r_exam r) = Some (Date now)" by (simp add: re)
    have bound: "0 < totalQuestions e \<and> totalQuestions e < 2 ^ 32 \<longrightarrow>
                   (\<exists>p. percentage r = Fin p
                      \<and> \<bar>p - 100 * of_nat (calculateCorrectCount e) / of_nat (totalQuestions e)\<bar>
                          \<le> (100 * of_nat (calculateCorrectCount e)
                                / of_nat (totalQuestions e)) / 2 ^ 51)"
      unfolding pr pc_def
      using percentage_rounded [of "totalQuestions e" "calculateCorrectCount e"]
        calculateCorrectCount_le [of e]
      by blast
    have full: "0 < totalQuestions e \<and> calculateCorrectCount e = totalQuestions e \<longrightarrow>
                   percentage r = Fin 100"
      unfolding pr pc_def by (simp add: percentage_all)
    have zero: "0 < totalQuestions e \<and> calculateCorrectCount e = 0 \<longrightarrow> percentage r = Fin 0"
      unfolding pr pc_def by (simp add: percentage_none)
    from run r re stamp bound full zero show ?thesis by blast
  qed
  from none refused completed show ?thesis by blast
qed

theorem completeExam_outcomes_witness:
  "completeExam 1700000754321 \<lparr>currentExam = None\<rparr> =
     (Inl (Error ''No exam to complete''), \<lparr>currentExam = None\<rparr>)
   \<and> completeExam 1700000754321 \<lparr>currentExam = Some sample_exam\<rparr> =
     (Inl (Error ''Not all questions have been answered''), \<lparr>currentExam = Some sample_exam\<rparr>)
   \<and> (\<exists>r. completeExam 1700000754321 \<lparr>currentExam = Some complete_exam\<rparr> =
            (Inr r, \<lparr>currentExam = Some (exam_end 1700000754321 complete_exam)\<rparr>)
         \<and> endTime (r_exam r) = Some (Date 1700000754321)
         \<and> (\<exists>p. percentage r = Fin p \<and> \<bar>p - 100 * 2 / 3\<bar> \<le> (100 * 2 / 3) / 2 ^ 51))"
  using completeExam_outcomes [of "\<lparr>currentExam = None\<rparr>" 1700000754321]
    completeExam_outcomes [of "\<lparr>currentExam = Some sample_exam\<rparr>" 1700000754321]
    completeExam_outcomes [of "\<lparr>currentExam = Some complete_exam\<rparr>" 1700000754321]
    sample_exam_counts(1,2,3,4)
  by auto

text \<open>
  Claim C9. For an Exam without questions \<open>canSubmit\<close> is true, since 0 answered equals
  0 questions: \<open>completeExam\<close> does not refuse it and goes on to construct the
  ExamResult, which it returns, with the percentage NaN and the grade F.
\<close>

theorem canSubmit_empty_exam:
  assumes "currentExam s = Some e" and "totalQuestions e = 0"
  shows "canSubmit e
    \<and> (\<exists>r. completeExam now s = (Inr r, s\<lparr>currentExam := Some (exam_end now e)\<rparr>)
          \<and> new_ExamResult now (exam_end now e) = Inr r
          \<and> percentage r = NaN \<and> grade r = ''F'')"
proof -
  have sub: "canSubmit e"
    using assms(2) getAnsweredCount_le [of e] by (simp add: canSubmit_def)
  have nan: "js_mul (js_div (js_num (calculateCorrectCount e)) (js_num (totalQuestions e)))
               (Fin 100) = NaN"
    using percentage_NaN [OF calculateCorrectCount_le [of e] assms(2)] .
  show ?thesis
    using sub assms(1)
    by (simp add: completeExam_def Let_def new_ExamResult_Inr nan calculateGrade_def)
qed

theorem canSubmit_empty_exam_witness:
  "canSubmit empty_exam
   \<and> (\<exists>r. completeExam 9 \<lparr>currentExam = Some empty_exam\<rparr> =
            (Inr r, \<lparr>currentExam = Some (exam_end 9 empty_exam)\<rparr>)
         \<and> percentage r = NaN \<and> grade r = ''F'')"
  using canSubmit_empty_exam [of "\<lparr>currentExam = Some empty_exam\<rparr>" empty_exam 9]
  by (auto simp: totalQuestions_def empty_exam_def new_Exam_def)

end
